theory Spec2Isabelle
  imports Complex_Main "HOL-Library.Word"
begin

section \<open>Messages\<close>

text \<open>
  The tracker of \<^verbatim>\<open>multi_object_tracker.cpp\<close> works on ROS messages. Each message is a
  record holding the fields the tracker reads or writes; the remaining fields of a message
  live in the record's extension slot and are carried along untouched. A \<^verbatim>\<open>float64_t\<close>
  (and the \<^verbatim>\<open>float32\<close> of a polygon point) is a real number: rounding is not modelled.
  The only place where IEEE arithmetic differs in kind from real arithmetic, the division
  by a zero norm in \<^verbatim>\<open>is_gravity_aligned\<close>, is written out there.
\<close>

text \<open>\<^verbatim>\<open>builtin_interfaces::msg::Time\<close>: \<^verbatim>\<open>int32 sec\<close>, \<^verbatim>\<open>uint32 nanosec\<close>.\<close>

record time_msg =
  stamp_sec :: "32 word"
  stamp_nanosec :: "32 word"

text \<open>
  A \<^verbatim>\<open>std::chrono::system_clock::time_point\<close> and a duration between two of them:
  a count of nanoseconds.
\<close>

type_synonym time_point = int
type_synonym duration = int

record header =
  stamp :: time_msg
  frame_id :: string

record vec3 =
  vx :: real
  vy :: real
  vz :: real

text \<open>\<^verbatim>\<open>geometry_msgs::msg::Quaternion\<close>, fields \<^verbatim>\<open>x y z w\<close>.\<close>

record quaternion =
  quat_x :: real
  quat_y :: real
  quat_z :: real
  quat_w :: real

text \<open>
  A 3 by 3 matrix. The message field \<^verbatim>\<open>position_covariance\<close> is a \<^verbatim>\<open>float64[9]\<close> that the
  code reads through a row-major \<^verbatim>\<open>Eigen::Map\<close>: entry \<^verbatim>\<open>3 * i + j\<close> of the array is the
  field \<open>m\<^sub>i\<^sub>j\<close> here.
\<close>

record mat3 =
  m00 :: real
  m01 :: real
  m02 :: real
  m10 :: real
  m11 :: real
  m12 :: real
  m20 :: real
  m21 :: real
  m22 :: real

text \<open>
  \<^verbatim>\<open>nav_msgs::msg::Odometry\<close>: \<^verbatim>\<open>header\<close>, \<^verbatim>\<open>child_frame_id\<close>, \<^verbatim>\<open>pose.pose.position\<close>,
  \<^verbatim>\<open>pose.pose.orientation\<close> and \<^verbatim>\<open>twist.twist.linear\<close>.
\<close>

record odometry =
  odom_header :: header
  child_frame_id :: string
  pose_position :: vec3
  pose_orientation :: quaternion
  odom_twist_linear :: vec3

text \<open>
  One detected object: \<^verbatim>\<open>classification\<close>, \<^verbatim>\<open>shape.polygon\<close> (its points),
  \<^verbatim>\<open>kinematics.centroid_position\<close>, \<^verbatim>\<open>kinematics.position_covariance\<close>,
  \<^verbatim>\<open>kinematics.has_position_covariance\<close>, \<^verbatim>\<open>kinematics.twist.twist.linear\<close> and
  \<^verbatim>\<open>kinematics.has_twist\<close>. The type of a classification is left open.
\<close>

record 'c detected_object =
  classification :: 'c
  shape_polygon :: "vec3 list"
  centroid_position :: vec3
  position_covariance :: mat3
  has_position_covariance :: bool
  twist_linear :: vec3
  has_twist :: bool

text \<open>\<^verbatim>\<open>DetectedObjectsMsg\<close>: a header and the detections, in order.\<close>

record 'c detected_objects =
  det_header :: header
  objects :: "'c detected_object list"

text \<open>\<^verbatim>\<open>ClassifiedRoiArrayMsg\<close>: a header and the regions, each with its classifications.\<close>

record 'c classified_roi =
  classifications :: 'c
  roi_polygon :: "vec3 list"

record 'c classified_roi_array =
  roi_header :: header
  rois :: "'c classified_roi list"

text \<open>\<^verbatim>\<open>geometry_msgs::msg::Transform\<close>, the camera transform of the vision update.\<close>

record transform_msg =
  translation :: vec3
  rotation :: quaternion

text \<open>\<^verbatim>\<open>TrackedObjectsMsg\<close>: a header and one serialized track per live track.\<close>

record 'm tracked_objects =
  trk_header :: header
  trk_objects :: "'m list"

section \<open>Collaborators\<close>

text \<open>
  Modelled from the spec: the sentinel \<^verbatim>\<open>AssociatorResult::UNASSIGNED\<close>, declared outside
  the sources. A \<^verbatim>\<open>size_t\<close> index is a natural number, and the sentinel is taken to be the
  largest 64-bit \<^verbatim>\<open>size_t\<close>. No property below depends on its value.
\<close>

definition UNASSIGNED :: nat where
  "UNASSIGNED = 18446744073709551615"

text \<open>
  Modelled from the spec: \<^verbatim>\<open>AssociatorResult\<close>, whose declaration is not among the
  sources. It is a mapping from track index to the assigned observation index or
  \<open>UNASSIGNED\<close>, the unassigned track indices, the unassigned observation indices and an
  error flag. The two index sets are lists, in the order the tracker iterates over them.
\<close>

record associator_result =
  track_assignments :: "nat list"
  unassigned_detection_indices :: "nat list"
  unassigned_track_indices :: "nat list"
  had_errors :: bool

text \<open>
  The tracker calls into three classes whose code is not part of the tracker: the tracks
  (\<^verbatim>\<open>TrackedObject\<close>), the two associators and the track creator. Their member functions
  are the fields of one record, passed to every operation of the tracker. A track has the
  open type \<open>'t\<close>, the state of the track creator the open type \<open>'k\<close>, a serialized track
  the open type \<open>'m\<close>. The two overloads of \<^verbatim>\<open>TrackedObject::update\<close> are \<open>track_update\<close>
  (a detection) and \<open>track_update_classification\<close> (the classifications of a region); the
  two overloads of \<^verbatim>\<open>TrackCreator::add_objects\<close> are \<open>add_objects\<close> (detections) and
  \<open>add_rois\<close> (regions).
\<close>

record ('t, 'c, 'k, 'm) collaborators =
  track_predict :: "duration \<Rightarrow> 't \<Rightarrow> 't"
  track_update :: "'c detected_object \<Rightarrow> 't \<Rightarrow> 't"
  track_update_classification :: "'c \<Rightarrow> 't \<Rightarrow> 't"
  track_no_update :: "'t \<Rightarrow> 't"
  track_should_be_removed :: "duration \<Rightarrow> nat \<Rightarrow> 't \<Rightarrow> bool"
  track_msg :: "'t \<Rightarrow> 'm"
  object_assign :: "'c detected_objects \<Rightarrow> 't list \<Rightarrow> associator_result"
  vision_assign :: "'c classified_roi_array \<Rightarrow> 't list \<Rightarrow> transform_msg \<Rightarrow> associator_result"
  add_objects :: "'c detected_objects \<Rightarrow> associator_result \<Rightarrow> 'k \<Rightarrow> 'k"
  add_rois :: "'c classified_roi_array \<Rightarrow> associator_result \<Rightarrow> 'k \<Rightarrow> 'k"
  create_tracks :: "'k \<Rightarrow> 't list \<times> 'k"

section \<open>The tracker\<close>

text \<open>
  The status codes of \<^verbatim>\<open>TrackerUpdateStatus\<close>: the six the source names, which are the
  six the specification lists.
\<close>

datatype TrackerUpdateStatus =
  Ok
  | WentBackInTime
  | DetectionFrameMismatch
  | TrackerFrameMismatch
  | FrameNotGravityAligned
  | InvalidShape

text \<open>
  \<^verbatim>\<open>TrackerUpdateResult\<close>: the status and a \<^verbatim>\<open>unique_ptr\<close> to the serialized tracks, null
  (\<open>None\<close>) until it is assigned.
\<close>

record 'm TrackerUpdateResult =
  status :: TrackerUpdateStatus
  result_objects :: "'m tracked_objects option"

text \<open>
  \<^verbatim>\<open>MultiObjectTrackerOptions\<close>: the tracking frame and the two pruning thresholds. The
  configurations of the associators and of the track creator are part of the collaborators.
\<close>

record MultiObjectTrackerOptions =
  frame :: string
  pruning_time_threshold :: duration
  pruning_ticks_threshold :: nat

text \<open>The members of \<^verbatim>\<open>MultiObjectTracker\<close>.\<close>

record ('t, 'k) MultiObjectTracker =
  m_options :: MultiObjectTrackerOptions
  m_objects :: "'t list"
  m_last_update :: time_point
  m_track_creator :: 'k

text \<open>
  Modelled from the spec: \<^verbatim>\<open>time_utils::from_message\<close>, which is not among the sources,
  turns the capture timestamp of a header into a time point. It adds the seconds, read
  as a signed 32-bit number, and the nanoseconds, read as an unsigned one; the sum fits
  the 64-bit count of a time point.
\<close>

definition from_message :: "time_msg \<Rightarrow> time_point" where
  "from_message t = sint (stamp_sec t) * 1000000000 + uint (stamp_nanosec t)"

subsection \<open>Validation\<close>

definition kAngleThresh :: real where
  "kAngleThresh = 0.1"

definition kAxisTiltThresh :: real where
  "kAxisTiltThresh = 0.1"

text \<open>
  \<^verbatim>\<open>is_gravity_aligned\<close>. When the norm of the vector part is zero the quotient
  \<^verbatim>\<open>u_z\<close> of the source is not a number (or infinite), the comparison
  \<^verbatim>\<open>u_z < std::cos(kAxisTiltThresh)\<close> is false, and the function returns true.
\<close>

definition is_gravity_aligned :: "quaternion \<Rightarrow> bool" where
  "is_gravity_aligned quat =
     (if quat_w quat < cos (0.5 * kAngleThresh) then
        (let n = sqrt (quat_x quat * quat_x quat + quat_y quat * quat_y quat
                       + quat_z quat * quat_z quat)
         in if n = 0 then True
            else (let u_z = \<bar>quat_z quat\<bar> / n
                  in if u_z < cos kAxisTiltThresh then False else True))
      else True)"

definition validate ::
  "('t, 'k) MultiObjectTracker \<Rightarrow> 'c detected_objects \<Rightarrow> odometry \<Rightarrow> TrackerUpdateStatus"
where
  "validate s detections detection_frame_odometry =
     (let target_time = from_message (stamp (det_header detections)) in
      if target_time < m_last_update s then WentBackInTime
      else if frame_id (det_header detections) \<noteq> child_frame_id detection_frame_odometry
        then DetectionFrameMismatch
      else if frame_id (odom_header detection_frame_odometry) \<noteq> frame (m_options s)
        then TrackerFrameMismatch
      else if \<not> is_gravity_aligned (pose_orientation detection_frame_odometry)
        then FrameNotGravityAligned
      else Ok)"

subsection \<open>Frame transform\<close>

definition mat_vec :: "mat3 \<Rightarrow> vec3 \<Rightarrow> vec3" where
  "mat_vec a v =
     \<lparr>vx = m00 a * vx v + m01 a * vy v + m02 a * vz v,
      vy = m10 a * vx v + m11 a * vy v + m12 a * vz v,
      vz = m20 a * vx v + m21 a * vy v + m22 a * vz v\<rparr>"

definition mat_mul :: "mat3 \<Rightarrow> mat3 \<Rightarrow> mat3" where
  "mat_mul a b =
     \<lparr>m00 = m00 a * m00 b + m01 a * m10 b + m02 a * m20 b,
      m01 = m00 a * m01 b + m01 a * m11 b + m02 a * m21 b,
      m02 = m00 a * m02 b + m01 a * m12 b + m02 a * m22 b,
      m10 = m10 a * m00 b + m11 a * m10 b + m12 a * m20 b,
      m11 = m10 a * m01 b + m11 a * m11 b + m12 a * m21 b,
      m12 = m10 a * m02 b + m11 a * m12 b + m12 a * m22 b,
      m20 = m20 a * m00 b + m21 a * m10 b + m22 a * m20 b,
      m21 = m20 a * m01 b + m21 a * m11 b + m22 a * m21 b,
      m22 = m20 a * m02 b + m21 a * m12 b + m22 a * m22 b\<rparr>"

definition mat_transpose :: "mat3 \<Rightarrow> mat3" where
  "mat_transpose a =
     \<lparr>m00 = m00 a, m01 = m10 a, m02 = m20 a,
      m10 = m01 a, m11 = m11 a, m12 = m21 a,
      m20 = m02 a, m21 = m12 a, m22 = m22 a\<rparr>"

text \<open>
  Modelled from the spec: the rigid transform built from the odometry pose. The
  conversions \<^verbatim>\<open>tf2::fromMsg\<close> and \<^verbatim>\<open>tf2::doTransform\<close> are not among the sources; the
  spec has one rigid transform, rotation and translation, built from the pose and applied
  to the polygon points and to the centroid alike. The rotation of a quaternion is its
  rotation matrix, by the formula of \<^verbatim>\<open>Eigen::Quaterniond::toRotationMatrix\<close>.
\<close>

definition rotation_matrix :: "quaternion \<Rightarrow> mat3" where
  "rotation_matrix q =
     (let tx = 2 * quat_x q; ty = 2 * quat_y q; tz = 2 * quat_z q;
          twx = tx * quat_w q; twy = ty * quat_w q; twz = tz * quat_w q;
          txx = tx * quat_x q; txy = ty * quat_x q; txz = tz * quat_x q;
          tyy = ty * quat_y q; tyz = tz * quat_y q; tzz = tz * quat_z q
      in \<lparr>m00 = 1 - (tyy + tzz), m01 = txy - twz, m02 = txz + twy,
          m10 = txy + twz, m11 = 1 - (txx + tzz), m12 = tyz - twx,
          m20 = txz - twy, m21 = tyz + twx, m22 = 1 - (txx + tyy)\<rparr>)"

text \<open>The point \<open>R p + t\<close>.\<close>

definition isometry_apply :: "mat3 \<Rightarrow> vec3 \<Rightarrow> vec3 \<Rightarrow> vec3" where
  "isometry_apply r t p =
     (let q = mat_vec r p
      in \<lparr>vx = vx q + vx t, vy = vy q + vy t, vz = vz q + vz t\<rparr>)"

text \<open>The body of the loop of \<^verbatim>\<open>MultiObjectTracker::transform\<close>, for one detection.\<close>

definition transform_detection :: "odometry \<Rightarrow> 'c detected_object \<Rightarrow> 'c detected_object" where
  "transform_detection detection_frame_odometry detection =
     (let rot_d = rotation_matrix (pose_orientation detection_frame_odometry);
          t = pose_position detection_frame_odometry;
          d1 = detection\<lparr>shape_polygon := map (isometry_apply rot_d t) (shape_polygon detection)\<rparr>;
          d2 = d1\<lparr>centroid_position := isometry_apply rot_d t (centroid_position d1)\<rparr>;
          d3 = (if has_position_covariance d2
                then d2\<lparr>position_covariance :=
                          mat_mul (mat_mul rot_d (position_covariance d2)) (mat_transpose rot_d)\<rparr>
                else d2);
          d4 = (if has_twist d3
                then (let frame_linear = odom_twist_linear detection_frame_odometry;
                          eigen_linear_transformed = mat_vec rot_d (twist_linear d3)
                      in d3\<lparr>twist_linear :=
                               \<lparr>vx = vx frame_linear + vx eigen_linear_transformed,
                                vy = vy frame_linear + vy eigen_linear_transformed,
                                vz = vz frame_linear + vz eigen_linear_transformed\<rparr>\<rparr>)
                else d3)
      in d4)"

text \<open>
  \<^verbatim>\<open>MultiObjectTracker::transform\<close> changes its argument in place; here it returns the
  transformed batch.
\<close>

definition transform ::
  "('t, 'k) MultiObjectTracker \<Rightarrow> 'c detected_objects \<Rightarrow> odometry \<Rightarrow> 'c detected_objects"
where
  "transform s detections detection_frame_odometry =
     detections
       \<lparr>det_header := (det_header detections)\<lparr>frame_id := frame (m_options s)\<rparr>,
        objects := map (transform_detection detection_frame_odometry) (objects detections)\<rparr>"

subsection \<open>Unchecked indexing\<close>

text \<open>
  \<^verbatim>\<open>operator[]\<close> of a \<^verbatim>\<open>std::vector\<close> does not check its index, and an index out of range
  is undefined behaviour. A read is \<open>None\<close> there, and so is every operation that reads.
\<close>

definition index_at :: "'a list \<Rightarrow> nat \<Rightarrow> 'a option" where
  "index_at xs i = (if i < length xs then Some (xs ! i) else None)"

text \<open>\<^verbatim>\<open>xs[i].f()\<close> for a member function \<open>f\<close> that changes the element.\<close>

definition modify_at :: "nat \<Rightarrow> ('a \<Rightarrow> 'a) \<Rightarrow> 'a list \<Rightarrow> 'a list option" where
  "modify_at i f xs = (case index_at xs i of None \<Rightarrow> None | Some x \<Rightarrow> Some (xs[i := f x]))"

subsection \<open>The detection cycle\<close>

text \<open>
  The first loop of the update stage, over the track indices \<open>idxs\<close> (in the source
  \<open>0, \<dots>, m_objects.size() - 1\<close>): a track with an assigned detection is updated with it.
\<close>

fun update_assigned ::
  "('c detected_object \<Rightarrow> 't \<Rightarrow> 't) \<Rightarrow> associator_result \<Rightarrow> 'c detected_objects
   \<Rightarrow> nat list \<Rightarrow> 't list \<Rightarrow> 't list option"
where
  "update_assigned upd association detections [] objs = Some objs"
| "update_assigned upd association detections (track_idx # idxs) objs =
     (case index_at (track_assignments association) track_idx of
        None \<Rightarrow> None
      | Some detection_idx \<Rightarrow>
          if detection_idx = UNASSIGNED
          then update_assigned upd association detections idxs objs
          else (case index_at (objects detections) detection_idx of
                  None \<Rightarrow> None
                | Some detection \<Rightarrow>
                    (case modify_at track_idx (upd detection) objs of
                       None \<Rightarrow> None
                     | Some objs' \<Rightarrow> update_assigned upd association detections idxs objs')))"

text \<open>The second loop, over the unassigned track indices: each of them decays.\<close>

fun no_update_unassigned :: "('t \<Rightarrow> 't) \<Rightarrow> nat list \<Rightarrow> 't list \<Rightarrow> 't list option" where
  "no_update_unassigned noupd [] objs = Some objs"
| "no_update_unassigned noupd (track_idx # idxs) objs =
     (case modify_at track_idx noupd objs of
        None \<Rightarrow> None
      | Some objs' \<Rightarrow> no_update_unassigned noupd idxs objs')"

text \<open>The two loops in a row: the stage ``update tracks with observations''.\<close>

definition update_tracks ::
  "('c detected_object \<Rightarrow> 't \<Rightarrow> 't) \<Rightarrow> ('t \<Rightarrow> 't) \<Rightarrow> associator_result \<Rightarrow> 'c detected_objects
   \<Rightarrow> 't list \<Rightarrow> 't list option"
where
  "update_tracks upd noupd association detections objs =
     (case update_assigned upd association detections [0..<length objs] objs of
        None \<Rightarrow> None
      | Some objs' \<Rightarrow> no_update_unassigned noupd (unassigned_track_indices association) objs')"

definition convert_to_msg ::
  "('t, 'c, 'k, 'm) collaborators \<Rightarrow> MultiObjectTrackerOptions \<Rightarrow> 't list \<Rightarrow> time_msg
   \<Rightarrow> 'm tracked_objects"
where
  "convert_to_msg ops options objs stamp' =
     \<lparr>trk_header = \<lparr>stamp = stamp', frame_id = frame options\<rparr>,
      trk_objects = map (track_msg ops) objs\<rparr>"

text \<open>The tracks after prediction, and the association the detection cycle works with.\<close>

definition predicted_objects ::
  "('t, 'c, 'k, 'm) collaborators \<Rightarrow> ('t, 'k) MultiObjectTracker \<Rightarrow> 'c detected_objects \<Rightarrow> 't list"
where
  "predicted_objects ops s detections =
     (let target_time = from_message (stamp (det_header detections));
          dt = target_time - m_last_update s
      in map (track_predict ops dt) (m_objects s))"

definition detection_association ::
  "('t, 'c, 'k, 'm) collaborators \<Rightarrow> ('t, 'k) MultiObjectTracker \<Rightarrow> 'c detected_objects
   \<Rightarrow> odometry \<Rightarrow> associator_result"
where
  "detection_association ops s detections detection_frame_odometry =
     (let detections' = transform s detections detection_frame_odometry
      in object_assign ops detections' (predicted_objects ops s detections'))"

text \<open>
  \<^verbatim>\<open>MultiObjectTracker::update\<close> for a detection batch. The result is the returned
  \<^verbatim>\<open>TrackerUpdateResult\<close> and the tracker after the call, or \<open>None\<close> when the call reads a
  vector out of range.
\<close>

definition update ::
  "('t, 'c, 'k, 'm) collaborators \<Rightarrow> ('t, 'k) MultiObjectTracker \<Rightarrow> 'c detected_objects
   \<Rightarrow> odometry \<Rightarrow> ('m TrackerUpdateResult \<times> ('t, 'k) MultiObjectTracker) option"
where
  "update ops s detections detection_frame_odometry =
     (let result = \<lparr>status = validate s detections detection_frame_odometry,
                    result_objects = None\<rparr>
      in if status result \<noteq> Ok then Some (result, s)
         else
           (let detections = transform s detections detection_frame_odometry;
                target_time = from_message (stamp (det_header detections));
                objs = predicted_objects ops s detections;
                association = object_assign ops detections objs;
                result = (if had_errors association
                          then result\<lparr>status := InvalidShape\<rparr> else result)
            in case update_tracks (track_update ops) (track_no_update ops)
                      association detections objs of
                 None \<Rightarrow> None
               | Some objs \<Rightarrow>
                   (let (tracks, creator) =
                          create_tracks ops
                            (add_objects ops detections association (m_track_creator s));
                        objs = objs @ tracks;
                        objs = filter
                                 (\<lambda>object. \<not> track_should_be_removed ops
                                                (pruning_time_threshold (m_options s))
                                                (pruning_ticks_threshold (m_options s)) object)
                                 objs;
                        result = result\<lparr>result_objects :=
                                          Some (convert_to_msg ops (m_options s) objs
                                                  (stamp (det_header detections)))\<rparr>;
                        result = result\<lparr>status := Ok\<rparr>
                    in Some (result,
                             s\<lparr>m_objects := objs, m_last_update := target_time,
                               m_track_creator := creator\<rparr>))))"

subsection \<open>The vision update\<close>

text \<open>The loop of the vision update, over the track indices \<open>idxs\<close>.\<close>

fun update_classified ::
  "('c \<Rightarrow> 't \<Rightarrow> 't) \<Rightarrow> associator_result \<Rightarrow> 'c classified_roi_array
   \<Rightarrow> nat list \<Rightarrow> 't list \<Rightarrow> 't list option"
where
  "update_classified upd association rois' [] objs = Some objs"
| "update_classified upd association rois' (i # idxs) objs =
     (case index_at (track_assignments association) i of
        None \<Rightarrow> None
      | Some maybe_roi_idx \<Rightarrow>
          if maybe_roi_idx \<noteq> UNASSIGNED
          then (case index_at (rois rois') maybe_roi_idx of
                  None \<Rightarrow> None
                | Some roi \<Rightarrow>
                    (case modify_at i (upd (classifications roi)) objs of
                       None \<Rightarrow> None
                     | Some objs' \<Rightarrow> update_classified upd association rois' idxs objs'))
          else update_classified upd association rois' idxs objs)"

text \<open>
  \<^verbatim>\<open>MultiObjectTracker::update\<close> for a batch of classified regions: the tracker after the
  call, or \<open>None\<close> when the call reads a vector out of range.
\<close>

definition update_vision ::
  "('t, 'c, 'k, 'm) collaborators \<Rightarrow> ('t, 'k) MultiObjectTracker \<Rightarrow> 'c classified_roi_array
   \<Rightarrow> transform_msg \<Rightarrow> ('t, 'k) MultiObjectTracker option"
where
  "update_vision ops s rois' tf_camera_from_track =
     (let association = vision_assign ops rois' (m_objects s) tf_camera_from_track
      in case update_classified (track_update_classification ops) association rois'
                [0..<length (m_objects s)] (m_objects s) of
           None \<Rightarrow> None
         | Some objs \<Rightarrow>
             Some (s\<lparr>m_objects := objs,
                     m_track_creator := add_rois ops rois' association (m_track_creator s)\<rparr>))"

section \<open>Notions of the specification\<close>

subsection \<open>The validation gate\<close>

text \<open>
  The four preconditions in the order the specification lists them, each with the status
  its failure is reported with, and the status of the first one that fails.
\<close>

definition spec_preconditions ::
  "('t, 'k) MultiObjectTracker \<Rightarrow> 'c detected_objects \<Rightarrow> odometry
   \<Rightarrow> (bool \<times> TrackerUpdateStatus) list"
where
  "spec_preconditions s detections odom =
     [(\<not> from_message (stamp (det_header detections)) < m_last_update s, WentBackInTime),
      (frame_id (det_header detections) = child_frame_id odom, DetectionFrameMismatch),
      (frame_id (odom_header odom) = frame (m_options s), TrackerFrameMismatch),
      (is_gravity_aligned (pose_orientation odom), FrameNotGravityAligned)]"

fun first_failing :: "(bool \<times> TrackerUpdateStatus) list \<Rightarrow> TrackerUpdateStatus" where
  "first_failing [] = Ok"
| "first_failing ((holds, st) # checks) = (if holds then first_failing checks else st)"

subsection \<open>Rotations about one axis\<close>

text \<open>
  The unit quaternion of the rotation by the angle \<open>\<theta>\<close> about the z axis (yaw), the y axis
  (pitch) and the x axis (roll).
\<close>

definition yaw_quaternion :: "real \<Rightarrow> quaternion" where
  "yaw_quaternion \<theta> =
     \<lparr>quat_x = 0, quat_y = 0, quat_z = sin (\<theta> / 2), quat_w = cos (\<theta> / 2)\<rparr>"

definition pitch_quaternion :: "real \<Rightarrow> quaternion" where
  "pitch_quaternion \<theta> =
     \<lparr>quat_x = 0, quat_y = sin (\<theta> / 2), quat_z = 0, quat_w = cos (\<theta> / 2)\<rparr>"

definition roll_quaternion :: "real \<Rightarrow> quaternion" where
  "roll_quaternion \<theta> =
     \<lparr>quat_x = sin (\<theta> / 2), quat_y = 0, quat_z = 0, quat_w = cos (\<theta> / 2)\<rparr>"

definition identity_quaternion :: quaternion where
  "identity_quaternion = \<lparr>quat_x = 0, quat_y = 0, quat_z = 0, quat_w = 1\<rparr>"

definition zero_vec3 :: vec3 where
  "zero_vec3 = \<lparr>vx = 0, vy = 0, vz = 0\<rparr>"

subsection \<open>Contracts of the associator\<close>

text \<open>
  An associator result is well formed for \<open>n_tracks\<close> tracks and \<open>n_observations\<close>
  observations when the assignment has one entry per track, every entry other than
  \<open>UNASSIGNED\<close> is the index of an observation, and every listed unassigned track index
  is the index of a track.
\<close>

definition well_formed :: "associator_result \<Rightarrow> nat \<Rightarrow> nat \<Rightarrow> bool" where
  "well_formed a n_tracks n_observations \<longleftrightarrow>
     length (track_assignments a) = n_tracks \<and>
     list_all (\<lambda>e. e \<noteq> UNASSIGNED \<longrightarrow> e < n_observations) (track_assignments a) \<and>
     list_all (\<lambda>i. i < n_tracks) (unassigned_track_indices a)"

text \<open>
  The contract of the specification: the assignment has one entry per track, the
  unassigned track indices are a set (no index is listed twice), and each track index
  either has an assignment or is listed as unassigned, never both.
\<close>

definition associator_contract :: "associator_result \<Rightarrow> nat \<Rightarrow> bool" where
  "associator_contract a n_tracks \<longleftrightarrow>
     length (track_assignments a) = n_tracks \<and>
     distinct (unassigned_track_indices a) \<and>
     list_all
       (\<lambda>i. (track_assignments a ! i \<noteq> UNASSIGNED) \<noteq> (i \<in> set (unassigned_track_indices a)))
       [0..<n_tracks]"

subsection \<open>Recording the calls a track receives\<close>

text \<open>
  A track paired with the list of the calls it has received. The two functions wrap the
  member functions \<^verbatim>\<open>update\<close> and \<^verbatim>\<open>no_update\<close> of a track: they do what the wrapped
  function does and add the call to the list.
\<close>

datatype track_call = CalledUpdate | CalledNoUpdate

definition recording_update ::
  "('d \<Rightarrow> 't \<Rightarrow> 't) \<Rightarrow> 'd \<Rightarrow> 't \<times> track_call list \<Rightarrow> 't \<times> track_call list"
where
  "recording_update upd d = (\<lambda>(t, calls). (upd d t, calls @ [CalledUpdate]))"

definition recording_no_update ::
  "('t \<Rightarrow> 't) \<Rightarrow> 't \<times> track_call list \<Rightarrow> 't \<times> track_call list"
where
  "recording_no_update noupd = (\<lambda>(t, calls). (noupd t, calls @ [CalledNoUpdate]))"

text \<open>
  The collaborators with recording tracks: every member function does what it does for
  the plain collaborators, on the track without its record; \<open>update\<close> and \<open>no_update\<close> add
  their call to the record, and a newly created track has an empty record.
\<close>

definition recording ::
  "('t, 'c, 'k, 'm) collaborators \<Rightarrow> ('t \<times> track_call list, 'c, 'k, 'm) collaborators"
where
  "recording ops =
     \<lparr>track_predict = (\<lambda>dt (t, calls). (track_predict ops dt t, calls)),
      track_update = recording_update (track_update ops),
      track_update_classification =
        (\<lambda>c (t, calls). (track_update_classification ops c t, calls)),
      track_no_update = recording_no_update (track_no_update ops),
      track_should_be_removed =
        (\<lambda>time_threshold ticks_threshold (t, calls).
           track_should_be_removed ops time_threshold ticks_threshold t),
      track_msg = (\<lambda>(t, calls). track_msg ops t),
      object_assign = (\<lambda>d ts. object_assign ops d (map fst ts)),
      vision_assign = (\<lambda>r ts tf. vision_assign ops r (map fst ts) tf),
      add_objects = add_objects ops,
      add_rois = add_rois ops,
      create_tracks =
        (\<lambda>k. (map (\<lambda>t. (t, [])) (fst (create_tracks ops k)), snd (create_tracks ops k)))\<rparr>"

text \<open>A tracker with an empty record for each live track, and a tracker without the records.\<close>

definition start_recording ::
  "('t, 'k) MultiObjectTracker \<Rightarrow> ('t \<times> track_call list, 'k) MultiObjectTracker"
where
  "start_recording s =
     \<lparr>m_options = m_options s,
      m_objects = map (\<lambda>t. (t, [])) (m_objects s),
      m_last_update = m_last_update s,
      m_track_creator = m_track_creator s\<rparr>"

definition stop_recording ::
  "('t \<times> track_call list, 'k) MultiObjectTracker \<Rightarrow> ('t, 'k) MultiObjectTracker"
where
  "stop_recording s =
     \<lparr>m_options = m_options s,
      m_objects = map fst (m_objects s),
      m_last_update = m_last_update s,
      m_track_creator = m_track_creator s\<rparr>"

subsection \<open>Sequences of calls\<close>

datatype 'c call =
  DetectionCycle "'c detected_objects" odometry
  | VisionCycle "'c classified_roi_array" transform_msg

definition step ::
  "('t, 'c, 'k, 'm) collaborators \<Rightarrow> ('t, 'k) MultiObjectTracker \<Rightarrow> 'c call
   \<Rightarrow> ('t, 'k) MultiObjectTracker option"
where
  "step ops s c =
     (case c of
        DetectionCycle detections odom \<Rightarrow> map_option snd (update ops s detections odom)
      | VisionCycle rois' tf \<Rightarrow> update_vision ops s rois' tf)"

text \<open>The trackers after each call of a sequence, in order.\<close>

fun run ::
  "('t, 'c, 'k, 'm) collaborators \<Rightarrow> ('t, 'k) MultiObjectTracker \<Rightarrow> 'c call list
   \<Rightarrow> ('t, 'k) MultiObjectTracker list option"
where
  "run ops s [] = Some []"
| "run ops s (c # cs) =
     (case step ops s c of
        None \<Rightarrow> None
      | Some s' \<Rightarrow> map_option ((#) s') (run ops s' cs))"

section \<open>An example tracker\<close>

text \<open>
  A small instance of the collaborators, for concrete runs. A track is a triple: the
  number of detections it has been updated with, its class and the number of cycles
  since its last update. The associators pair track \<open>i\<close> with observation \<open>i\<close>; the
  object associator reports an error when a detection has an empty polygon. The state of
  the track creator is the number of pending observations.
\<close>

type_synonym example_track = "nat \<times> nat \<times> nat"

definition pair_off :: "nat \<Rightarrow> nat \<Rightarrow> bool \<Rightarrow> associator_result" where
  "pair_off n_tracks n_observations errors =
     \<lparr>track_assignments =
        map (\<lambda>i. if i < n_observations then i else UNASSIGNED) [0..<n_tracks],
      unassigned_detection_indices = [n_tracks..<n_observations],
      unassigned_track_indices = [n_observations..<n_tracks],
      had_errors = errors\<rparr>"

definition example_ops :: "(example_track, nat, nat, example_track) collaborators" where
  "example_ops =
     \<lparr>track_predict = (\<lambda>dt t. t),
      track_update = (\<lambda>d (u, l, k). (Suc u, classification d, 0)),
      track_update_classification = (\<lambda>c (u, l, k). (u, c, k)),
      track_no_update = (\<lambda>(u, l, k). (u, l, Suc k)),
      track_should_be_removed =
        (\<lambda>time_threshold ticks_threshold (u, l, k). ticks_threshold < k),
      track_msg = (\<lambda>t. t),
      object_assign =
        (\<lambda>d ts. pair_off (length ts) (length (objects d))
                   (list_ex (\<lambda>ob. shape_polygon ob = []) (objects d))),
      vision_assign = (\<lambda>r ts tf. pair_off (length ts) (length (rois r)) False),
      add_objects = (\<lambda>d a k. k + length (unassigned_detection_indices a)),
      add_rois = (\<lambda>r a k. k + length (unassigned_detection_indices a)),
      create_tracks = (\<lambda>k. (replicate k (0, 0, 0), 0))\<rparr>"

definition example_tracker :: "(example_track, nat) MultiObjectTracker" where
  "example_tracker =
     \<lparr>m_options = \<lparr>frame = ''map'', pruning_time_threshold = 1000000000,
                    pruning_ticks_threshold = 3\<rparr>,
      m_objects = [(4, 1, 0), (2, 2, 1)],
      m_last_update = 10000000000,
      m_track_creator = 0\<rparr>"

definition example_detection :: "nat detected_object" where
  "example_detection =
     \<lparr>classification = 7,
      shape_polygon = [],
      centroid_position = \<lparr>vx = 1, vy = 2, vz = 0\<rparr>,
      position_covariance = \<lparr>m00 = 2, m01 = 0, m02 = 0, m10 = 0, m11 = 1, m12 = 0,
                             m20 = 0, m21 = 0, m22 = 1\<rparr>,
      has_position_covariance = True,
      twist_linear = \<lparr>vx = 1, vy = 0, vz = 0\<rparr>,
      has_twist = True\<rparr>"

text \<open>A batch of one detection, captured at the given second, in the frame \<open>base_link\<close>.\<close>

definition example_detections :: "nat \<Rightarrow> nat detected_objects" where
  "example_detections seconds =
     \<lparr>det_header = \<lparr>stamp = \<lparr>stamp_sec = of_nat seconds, stamp_nanosec = 0\<rparr>,
                     frame_id = ''base_link''\<rparr>,
      objects = [example_detection]\<rparr>"

text \<open>The odometry of \<open>base_link\<close> in \<open>map\<close>, with the given orientation.\<close>

definition example_odometry :: "quaternion \<Rightarrow> odometry" where
  "example_odometry q =
     \<lparr>odom_header = \<lparr>stamp = \<lparr>stamp_sec = 12, stamp_nanosec = 0\<rparr>, frame_id = ''map''\<rparr>,
      child_frame_id = ''base_link'',
      pose_position = \<lparr>vx = 10, vy = 20, vz = 0\<rparr>,
      pose_orientation = q,
      odom_twist_linear = \<lparr>vx = 3, vy = 0, vz = 0\<rparr>\<rparr>"

definition example_rois :: "nat classified_roi_array" where
  "example_rois =
     \<lparr>roi_header = \<lparr>stamp = \<lparr>stamp_sec = 12, stamp_nanosec = 0\<rparr>, frame_id = ''camera''\<rparr>,
      rois = [\<lparr>classifications = 9, roi_polygon = []\<rparr>]\<rparr>"

definition example_camera_transform :: transform_msg where
  "example_camera_transform = \<lparr>translation = zero_vec3, rotation = identity_quaternion\<rparr>"

section \<open>Properties of the validation gate\<close>

lemma validate_first_failing:
  "validate s detections odom = first_failing (spec_preconditions s detections odom)"
  by (simp add: validate_def spec_preconditions_def)

lemma validate_Ok_iff:
  "validate s detections odom = Ok \<longleftrightarrow> list_all fst (spec_preconditions s detections odom)"
  by (simp add: validate_def spec_preconditions_def)

lemma update_rejected:
  "validate s detections odom \<noteq> Ok \<Longrightarrow>
   update ops s detections odom =
     Some (\<lparr>status = validate s detections odom, result_objects = None\<rparr>, s)"
  by (simp add: update_def)

lemma update_accepted:
  assumes "validate s detections odom = Ok" and "update ops s detections odom = Some (r, s')"
  shows "status r = Ok \<and> m_last_update s' = from_message (stamp (det_header detections))"
  using assms
  by (auto simp: update_def Let_def transform_def split: option.splits prod.splits)

text \<open>
  C1: when one of the four preconditions fails, the detection cycle returns the status of
  the first failing one, in the order WentBackInTime, DetectionFrameMismatch,
  TrackerFrameMismatch, FrameNotGravityAligned; the result carries no tracks, and the
  tracker after the call is the tracker before it, so the live tracks and the last-update
  timestamp are unchanged.
\<close>

theorem update_validation_failure_is_noop:
  assumes "\<not> list_all fst (spec_preconditions s detections odom)"
  shows "update ops s detections odom =
           Some (\<lparr>status = first_failing (spec_preconditions s detections odom),
                  result_objects = None\<rparr>, s)
         \<and> first_failing (spec_preconditions s detections odom) \<noteq> Ok"
  using assms update_rejected [of s detections odom ops]
  by (simp add: validate_Ok_iff [symmetric] validate_first_failing [symmetric])

theorem update_validation_failure_is_noop_witness:
  "\<not> list_all fst (spec_preconditions example_tracker (example_detections 9)
                     (example_odometry (roll_quaternion pi)))
   \<and> update example_ops example_tracker (example_detections 9)
       (example_odometry (roll_quaternion pi)) =
     Some (\<lparr>status = WentBackInTime, result_objects = None\<rparr>, example_tracker)"
proof -
  have earlier: "from_message (stamp (det_header (example_detections 9)))
                < m_last_update example_tracker"
    by (simp add: example_detections_def example_tracker_def from_message_def)
  then have fails: "\<not> list_all fst (spec_preconditions example_tracker (example_detections 9)
                       (example_odometry (roll_quaternion pi)))"
    by (simp add: spec_preconditions_def)
  from update_validation_failure_is_noop [OF fails, of example_ops] earlier fails
  show ?thesis by (simp add: spec_preconditions_def)
qed

lemma validate_WentBackInTime_iff:
  "validate s detections odom = WentBackInTime \<longleftrightarrow>
   from_message (stamp (det_header detections)) < m_last_update s"
  by (simp add: validate_def)

lemma update_status_WentBackInTime_iff:
  "(\<exists>r s'. update ops s detections odom = Some (r, s') \<and> status r = WentBackInTime) \<longleftrightarrow>
   from_message (stamp (det_header detections)) < m_last_update s"
proof
  assume "\<exists>r s'. update ops s detections odom = Some (r, s') \<and> status r = WentBackInTime"
  then obtain r s' where u: "update ops s detections odom = Some (r, s')"
    and st: "status r = WentBackInTime" by blast
  have "validate s detections odom \<noteq> Ok"
    using update_accepted [OF _ u] st by auto
  from update_rejected [OF this, of ops] u st
  have "validate s detections odom = WentBackInTime" by auto
  then show "from_message (stamp (det_header detections)) < m_last_update s"
    by (simp add: validate_WentBackInTime_iff)
next
  assume "from_message (stamp (det_header detections)) < m_last_update s"
  then have "validate s detections odom = WentBackInTime"
    by (simp add: validate_WentBackInTime_iff)
  then show "\<exists>r s'. update ops s detections odom = Some (r, s') \<and> status r = WentBackInTime"
    using update_rejected [of s detections odom ops] by simp
qed

text \<open>
  C3: the detection cycle returns WentBackInTime exactly when the capture timestamp of
  the batch is strictly less than the last-update timestamp; the call then leaves the
  tracker, and so the live tracks, as it was. A batch whose capture timestamp equals the
  last-update timestamp passes this check.
\<close>

theorem update_went_back_in_time:
  "((\<exists>r s'. update ops s detections odom = Some (r, s') \<and> status r = WentBackInTime) \<longleftrightarrow>
      from_message (stamp (det_header detections)) < m_last_update s)
   \<and> (from_message (stamp (det_header detections)) < m_last_update s \<longrightarrow>
        update ops s detections odom =
          Some (\<lparr>status = WentBackInTime, result_objects = None\<rparr>, s))
   \<and> (from_message (stamp (det_header detections)) = m_last_update s \<longrightarrow>
        validate s detections odom \<noteq> WentBackInTime
        \<and> (\<forall>r s'. update ops s detections odom = Some (r, s') \<longrightarrow> status r \<noteq> WentBackInTime))"
proof (intro conjI impI)
  show "(\<exists>r s'. update ops s detections odom = Some (r, s') \<and> status r = WentBackInTime) \<longleftrightarrow>
      from_message (stamp (det_header detections)) < m_last_update s"
    by (rule update_status_WentBackInTime_iff)
next
  assume "from_message (stamp (det_header detections)) < m_last_update s"
  then have "validate s detections odom = WentBackInTime"
    by (simp add: validate_WentBackInTime_iff)
  then show "update ops s detections odom =
          Some (\<lparr>status = WentBackInTime, result_objects = None\<rparr>, s)"
    using update_rejected [of s detections odom ops] by simp
next
  assume eq: "from_message (stamp (det_header detections)) = m_last_update s"
  then show "validate s detections odom \<noteq> WentBackInTime"
    by (simp add: validate_WentBackInTime_iff)
  from eq update_status_WentBackInTime_iff [of ops s detections odom]
  show "\<forall>r s'. update ops s detections odom = Some (r, s') \<longrightarrow> status r \<noteq> WentBackInTime"
    by auto
qed

theorem update_went_back_in_time_witness:
  "from_message (stamp (det_header (example_detections 9))) < m_last_update example_tracker
   \<and> update example_ops example_tracker (example_detections 9)
        (example_odometry identity_quaternion) =
       Some (\<lparr>status = WentBackInTime, result_objects = None\<rparr>, example_tracker)
   \<and> from_message (stamp (det_header (example_detections 10))) = m_last_update example_tracker
   \<and> validate example_tracker (example_detections 10) (example_odometry identity_quaternion)
       \<noteq> WentBackInTime"
proof -
  have earlier: "from_message (stamp (det_header (example_detections 9)))
                   < m_last_update example_tracker"
    by (simp add: example_detections_def example_tracker_def from_message_def)
  have same: "from_message (stamp (det_header (example_detections 10)))
                = m_last_update example_tracker"
    by (simp add: example_detections_def example_tracker_def from_message_def)
  from earlier same
    update_went_back_in_time [of example_ops example_tracker "example_detections 9"
      "example_odometry identity_quaternion"]
    update_went_back_in_time [of example_ops example_tracker "example_detections 10"
      "example_odometry identity_quaternion"]
  show ?thesis by blast
qed

section \<open>Gravity alignment\<close>

lemma cos_tilt_le_one: "\<not> 1 < cos kAxisTiltThresh"
  by (simp add: not_less)

lemma cos_tilt_pos: "0 < cos kAxisTiltThresh"
proof -
  have "(0.1::real) < pi / 2" using pi_ge_two by simp
  then show ?thesis unfolding kAxisTiltThresh_def by (intro cos_gt_zero) simp_all
qed

lemma is_gravity_aligned_z_axis:
  "quat_x q = 0 \<Longrightarrow> quat_y q = 0 \<Longrightarrow> is_gravity_aligned q"
  using cos_tilt_le_one by (simp add: is_gravity_aligned_def Let_def)

lemma half_angle_small:
  assumes "\<bar>\<theta>\<bar> \<le> kAngleThresh"
  shows "\<not> cos (\<theta> / 2) < cos (0.5 * kAngleThresh)"
proof -
  have "cos (0.5 * kAngleThresh) \<le> cos (\<bar>\<theta>\<bar> / 2)"
    using assms pi_ge_two by (intro cos_monotone_0_pi_le) (simp_all add: kAngleThresh_def)
  moreover have "cos (\<bar>\<theta>\<bar> / 2) = cos (\<theta> / 2)"
    by (cases "0 \<le> \<theta>") (simp_all add: abs_if)
  ultimately show ?thesis by simp
qed

lemma half_angle_large:
  assumes "kAngleThresh < \<bar>\<theta>\<bar>" and "\<bar>\<theta>\<bar> < 2 * pi"
  shows "cos (\<theta> / 2) < cos (0.5 * kAngleThresh)" and "sin (\<theta> / 2) \<noteq> 0"
proof -
  have "cos (\<bar>\<theta>\<bar> / 2) < cos (0.5 * kAngleThresh)"
    using assms by (intro cos_monotone_0_pi) (simp_all add: kAngleThresh_def)
  moreover have c: "cos (\<bar>\<theta>\<bar> / 2) = cos (\<theta> / 2)"
    by (cases "0 \<le> \<theta>") (simp_all add: abs_if)
  ultimately show "cos (\<theta> / 2) < cos (0.5 * kAngleThresh)" by simp
  have "0 < sin (\<bar>\<theta>\<bar> / 2)"
    using assms by (intro sin_gt_zero) (simp_all add: kAngleThresh_def)
  moreover have "sin (\<bar>\<theta>\<bar> / 2) = sin (\<theta> / 2) \<or> sin (\<bar>\<theta>\<bar> / 2) = - sin (\<theta> / 2)"
    by (cases "0 \<le> \<theta>") (simp_all add: abs_if)
  ultimately show "sin (\<theta> / 2) \<noteq> 0" by auto
qed

lemma is_gravity_aligned_small_tilt:
  assumes "\<bar>\<theta>\<bar> \<le> kAngleThresh"
  shows "is_gravity_aligned (pitch_quaternion \<theta>)" and "is_gravity_aligned (roll_quaternion \<theta>)"
  using half_angle_small [OF assms]
  by (simp_all add: is_gravity_aligned_def pitch_quaternion_def roll_quaternion_def)

lemma is_gravity_aligned_large_tilt:
  assumes "kAngleThresh < \<bar>\<theta>\<bar>" and "\<bar>\<theta>\<bar> < 2 * pi"
  shows "\<not> is_gravity_aligned (pitch_quaternion \<theta>)" and "\<not> is_gravity_aligned (roll_quaternion \<theta>)"
  using half_angle_large [OF assms] cos_tilt_pos
  by (simp_all add: is_gravity_aligned_def pitch_quaternion_def roll_quaternion_def Let_def)


lemma update_not_gravity_aligned:
  assumes "\<not> from_message (stamp (det_header detections)) < m_last_update s"
    and "frame_id (det_header detections) = child_frame_id odom"
    and "frame_id (odom_header odom) = frame (m_options s)"
    and "\<not> is_gravity_aligned (pose_orientation odom)"
  shows "update ops s detections odom =
           Some (\<lparr>status = FrameNotGravityAligned, result_objects = None\<rparr>, s)"
proof -
  from assms have "validate s detections odom = FrameNotGravityAligned"
    by (simp add: validate_def)
  then show ?thesis using update_rejected [of s detections odom ops] by simp
qed

text \<open>
  C4: the gravity-alignment check accepts every yaw rotation, whatever its angle, and
  more generally every orientation whose vector part lies on the z axis. A pitch or a
  roll by an angle of at most 0.1 rad in absolute value is accepted; one by an angle
  above 0.1 rad (and below a full turn) is rejected, and the detection cycle then
  returns FrameNotGravityAligned when the three earlier checks pass.
\<close>

theorem gravity_alignment_boundary:
  "is_gravity_aligned (yaw_quaternion \<theta>)
   \<and> (quat_x q = 0 \<and> quat_y q = 0 \<longrightarrow> is_gravity_aligned q)
   \<and> (\<bar>\<phi>\<bar> \<le> 0.1 \<longrightarrow>
        is_gravity_aligned (pitch_quaternion \<phi>) \<and> is_gravity_aligned (roll_quaternion \<phi>))
   \<and> (0.1 < \<bar>\<phi>\<bar> \<and> \<bar>\<phi>\<bar> < 2 * pi \<longrightarrow>
        \<not> is_gravity_aligned (pitch_quaternion \<phi>) \<and> \<not> is_gravity_aligned (roll_quaternion \<phi>))
   \<and> (\<not> from_message (stamp (det_header detections)) < m_last_update s
        \<and> frame_id (det_header detections) = child_frame_id odom
        \<and> frame_id (odom_header odom) = frame (m_options s)
        \<and> \<not> is_gravity_aligned (pose_orientation odom) \<longrightarrow>
        update ops s detections odom =
          Some (\<lparr>status = FrameNotGravityAligned, result_objects = None\<rparr>, s))"
proof (intro conjI impI)
  show "is_gravity_aligned (yaw_quaternion \<theta>)"
    by (rule is_gravity_aligned_z_axis) (simp_all add: yaw_quaternion_def)
next
  assume "quat_x q = 0 \<and> quat_y q = 0"
  then show "is_gravity_aligned q" by (simp add: is_gravity_aligned_z_axis)
next
  assume small: "\<bar>\<phi>\<bar> \<le> 0.1"
  then have "\<bar>\<phi>\<bar> \<le> kAngleThresh" by (simp add: kAngleThresh_def)
  then show "is_gravity_aligned (pitch_quaternion \<phi>)" "is_gravity_aligned (roll_quaternion \<phi>)"
    by (rule is_gravity_aligned_small_tilt)+
next
  assume "0.1 < \<bar>\<phi>\<bar> \<and> \<bar>\<phi>\<bar> < 2 * pi"
  then have large: "kAngleThresh < \<bar>\<phi>\<bar>" "\<bar>\<phi>\<bar> < 2 * pi" by (simp_all add: kAngleThresh_def)
  then show "\<not> is_gravity_aligned (pitch_quaternion \<phi>)"
    "\<not> is_gravity_aligned (roll_quaternion \<phi>)"
    by (rule is_gravity_aligned_large_tilt)+
next
  assume "\<not> from_message (stamp (det_header detections)) < m_last_update s
        \<and> frame_id (det_header detections) = child_frame_id odom
        \<and> frame_id (odom_header odom) = frame (m_options s)
        \<and> \<not> is_gravity_aligned (pose_orientation odom)"
  then show "update ops s detections odom =
          Some (\<lparr>status = FrameNotGravityAligned, result_objects = None\<rparr>, s)"
    by (simp add: update_not_gravity_aligned)
qed

theorem gravity_alignment_boundary_witness:
  "is_gravity_aligned (yaw_quaternion 3)
   \<and> is_gravity_aligned \<lparr>quat_x = 0, quat_y = 0, quat_z = 0, quat_w = - 1\<rparr>
   \<and> is_gravity_aligned (pitch_quaternion 0.1)
   \<and> is_gravity_aligned (roll_quaternion (- 0.1))
   \<and> \<not> is_gravity_aligned (pitch_quaternion 0.2)
   \<and> \<not> is_gravity_aligned (roll_quaternion pi)
   \<and> update example_ops example_tracker (example_detections 12)
        (example_odometry (roll_quaternion pi)) =
       Some (\<lparr>status = FrameNotGravityAligned, result_objects = None\<rparr>, example_tracker)"
proof -
  have tilted: "(0.1::real) < \<bar>pi\<bar> \<and> \<bar>pi\<bar> < 2 * pi" "(0.1::real) < \<bar>0.2\<bar> \<and> \<bar>0.2::real\<bar> < 2 * pi"
    using pi_ge_two by simp_all
  have rolled: "\<not> is_gravity_aligned (roll_quaternion pi)"
    using gravity_alignment_boundary [of _ _ pi] tilted by blast
  have gate: "\<not> from_message (stamp (det_header (example_detections 12)))
                  < m_last_update example_tracker
        \<and> frame_id (det_header (example_detections 12))
            = child_frame_id (example_odometry (roll_quaternion pi))
        \<and> frame_id (odom_header (example_odometry (roll_quaternion pi)))
            = frame (m_options example_tracker)
        \<and> \<not> is_gravity_aligned (pose_orientation (example_odometry (roll_quaternion pi)))"
    using rolled
    by (simp add: example_detections_def example_tracker_def example_odometry_def
        from_message_def)
  have small: "\<bar>0.1::real\<bar> \<le> 0.1" "\<bar>- 0.1::real\<bar> \<le> 0.1" by simp_all
  have axis: "quat_x \<lparr>quat_x = 0, quat_y = 0, quat_z = 0, quat_w = - 1\<rparr> = 0
              \<and> quat_y \<lparr>quat_x = 0, quat_y = 0, quat_z = 0, quat_w = - 1\<rparr> = 0"
    by simp
  from gravity_alignment_boundary [of 3 "\<lparr>quat_x = 0, quat_y = 0, quat_z = 0, quat_w = - 1\<rparr>" "0.1"]
    gravity_alignment_boundary [of _ _ "- 0.1"]
    gravity_alignment_boundary [of _ _ "0.2"]
    gravity_alignment_boundary [of _ _ _ "example_detections 12" example_tracker
      "example_odometry (roll_quaternion pi)" example_ops]
    tilted rolled gate small axis
  show ?thesis by blast
qed

section \<open>The example, evaluated\<close>

lemma example_validate_Ok:
  "validate example_tracker (example_detections 12) (example_odometry identity_quaternion) = Ok"
  by (simp add: validate_def example_tracker_def example_detections_def example_odometry_def
      from_message_def is_gravity_aligned_z_axis identity_quaternion_def)

lemma example_object_assign:
  assumes "objects d = [x]" and "shape_polygon x = []"
  shows "object_assign example_ops d [t1, t2] =
           \<lparr>track_assignments = [0, UNASSIGNED], unassigned_detection_indices = [],
            unassigned_track_indices = [1], had_errors = True\<rparr>"
  using assms by (simp add: example_ops_def pair_off_def numeral_2_eq_2)

lemma example_update_tracks:
  "update_tracks (track_update example_ops) (track_no_update example_ops)
     \<lparr>track_assignments = [0, UNASSIGNED], unassigned_detection_indices = [],
      unassigned_track_indices = [1], had_errors = True\<rparr>
     \<lparr>det_header = h, objects = [d\<lparr>classification := 7\<rparr>]\<rparr>
     [(4, 1, 0), (2, 2, 1)] = Some [(5, 7, 0), (2, 2, 2)]"
  by (simp add: update_tracks_def example_ops_def numeral_2_eq_2 index_at_def modify_at_def
      UNASSIGNED_def)

lemma example_transform:
  "transform example_tracker (example_detections 12) odom =
     \<lparr>det_header = \<lparr>stamp = \<lparr>stamp_sec = 12, stamp_nanosec = 0\<rparr>, frame_id = ''map''\<rparr>,
      objects = [(transform_detection odom example_detection)\<lparr>classification := 7\<rparr>]\<rparr>"
  by (simp add: transform_def example_tracker_def example_detections_def
      transform_detection_def example_detection_def Let_def)

lemma example_transform_polygon:
  "shape_polygon (transform_detection odom example_detection) = []"
  by (simp add: transform_detection_def example_detection_def Let_def)

lemma example_had_errors:
  "had_errors (detection_association example_ops example_tracker (example_detections 12)
     (example_odometry identity_quaternion))"
  unfolding detection_association_def Let_def example_transform predicted_objects_def
  by (simp add: example_tracker_def example_object_assign example_transform_polygon)

lemma example_update:
  "update example_ops example_tracker (example_detections 12)
     (example_odometry identity_quaternion) =
   Some (\<lparr>status = Ok,
          result_objects =
            Some \<lparr>trk_header = \<lparr>stamp = \<lparr>stamp_sec = 12, stamp_nanosec = 0\<rparr>,
                                frame_id = ''map''\<rparr>,
                  trk_objects = [(5, 7, 0), (2, 2, 2)]\<rparr>\<rparr>,
         example_tracker\<lparr>m_objects := [(5, 7, 0), (2, 2, 2)], m_last_update := 12000000000\<rparr>)"
proof -
  let ?odom = "example_odometry identity_quaternion"
  let ?dets = "transform example_tracker (example_detections 12) ?odom"
  let ?assoc = "\<lparr>track_assignments = [0, UNASSIGNED], unassigned_detection_indices = [],
                 unassigned_track_indices = [1], had_errors = True\<rparr>"
  have objs: "predicted_objects example_ops example_tracker ?dets = [(4, 1, 0), (2, 2, 1)]"
    by (simp add: predicted_objects_def example_tracker_def example_ops_def)
  have assoc: "object_assign example_ops ?dets [(4, 1, 0), (2, 2, 1)] = ?assoc"
    by (rule example_object_assign [where x = "(transform_detection ?odom example_detection)\<lparr>classification := 7\<rparr>"])
      (simp_all add: example_transform example_transform_polygon)
  have tracks: "update_tracks (track_update example_ops) (track_no_update example_ops)
                  ?assoc ?dets [(4, 1, 0), (2, 2, 1)] = Some [(5, 7, 0), (2, 2, 2)]"
    unfolding example_transform by (rule example_update_tracks)
  have creator: "create_tracks example_ops
                   (add_objects example_ops ?dets ?assoc (m_track_creator example_tracker)) = ([], 0)"
    by (simp add: example_ops_def example_tracker_def)
  have stamp: "stamp (det_header ?dets) = \<lparr>stamp_sec = 12, stamp_nanosec = 0\<rparr>"
    by (simp add: example_transform)
  show ?thesis
    apply (simp only: update_def Let_def example_validate_Ok objs assoc tracks creator stamp)
    apply (simp add: example_ops_def example_tracker_def convert_to_msg_def from_message_def)
    done
qed

lemma example_detection_association:
  "detection_association example_ops example_tracker (example_detections 12)
     (example_odometry identity_quaternion) =
   \<lparr>track_assignments = [0, UNASSIGNED], unassigned_detection_indices = [],
    unassigned_track_indices = [1], had_errors = True\<rparr>"
  unfolding detection_association_def Let_def example_transform predicted_objects_def
  by (simp add: example_tracker_def example_object_assign example_transform_polygon)

lemma example_update_vision:
  "update_vision example_ops example_tracker example_rois example_camera_transform =
     Some (example_tracker\<lparr>m_objects := [(4, 9, 0), (2, 2, 1)]\<rparr>)"
proof -
  have assoc: "vision_assign example_ops example_rois (m_objects example_tracker)
                 example_camera_transform =
               \<lparr>track_assignments = [0, UNASSIGNED], unassigned_detection_indices = [],
                unassigned_track_indices = [1], had_errors = False\<rparr>"
    by (simp add: example_ops_def example_rois_def example_tracker_def pair_off_def
        numeral_2_eq_2)
  have loop: "update_classified (track_update_classification example_ops)
                \<lparr>track_assignments = [0, UNASSIGNED], unassigned_detection_indices = [],
                 unassigned_track_indices = [1], had_errors = False\<rparr>
                example_rois [0..<length (m_objects example_tracker)] (m_objects example_tracker)
              = Some [(4, 9, 0), (2, 2, 1)]"
    by (simp add: example_ops_def example_rois_def example_tracker_def numeral_2_eq_2
        index_at_def modify_at_def UNASSIGNED_def)
  show ?thesis
    apply (simp only: update_vision_def Let_def assoc loop)
    apply (simp add: example_ops_def example_tracker_def)
    done
qed

text \<open>
  C2: the detection of the example has an empty polygon, so the associator of the example
  reports an error for it. The detection cycle passes validation and runs the whole
  pipeline: the first track is updated, the second decays, the timestamp advances. The
  status it returns is Ok, not InvalidShape: the status set after the association is
  overwritten when the result is built.
\<close>

theorem update_overwrites_invalid_shape:
  "validate example_tracker (example_detections 12) (example_odometry identity_quaternion) = Ok
   \<and> had_errors (detection_association example_ops example_tracker (example_detections 12)
                  (example_odometry identity_quaternion))
   \<and> update example_ops example_tracker (example_detections 12)
        (example_odometry identity_quaternion) =
      Some (\<lparr>status = Ok,
             result_objects =
               Some \<lparr>trk_header = \<lparr>stamp = \<lparr>stamp_sec = 12, stamp_nanosec = 0\<rparr>,
                                   frame_id = ''map''\<rparr>,
                     trk_objects = [(5, 7, 0), (2, 2, 2)]\<rparr>\<rparr>,
            example_tracker\<lparr>m_objects := [(5, 7, 0), (2, 2, 2)],
                            m_last_update := 12000000000\<rparr>)"
  by (intro conjI example_validate_Ok example_had_errors example_update)

section \<open>The last-update timestamp\<close>

lemma validate_Ok_not_earlier:
  "validate s detections odom = Ok \<Longrightarrow>
   m_last_update s \<le> from_message (stamp (det_header detections))"
  by (simp add: validate_def split: if_splits)

lemma update_last_update:
  assumes "update ops s detections odom = Some (r, s')"
  shows "(status r = Ok \<longrightarrow>
            m_last_update s' = from_message (stamp (det_header detections))
            \<and> m_last_update s \<le> m_last_update s')
         \<and> (status r \<noteq> Ok \<longrightarrow> s' = s)"
proof (cases "validate s detections odom = Ok")
  case True
  from update_accepted [OF True assms] validate_Ok_not_earlier [OF True]
  show ?thesis by simp
next
  case False
  from update_rejected [OF False, of ops] assms False show ?thesis by auto
qed

lemma update_vision_last_update:
  "update_vision ops s rois' tf = Some s' \<Longrightarrow> m_last_update s' = m_last_update s"
  by (auto simp: update_vision_def Let_def split: option.splits)

lemma step_last_update:
  assumes "step ops s c = Some s'"
  shows "m_last_update s \<le> m_last_update s'"
proof (cases c)
  case (DetectionCycle detections odom)
  with assms obtain r where u: "update ops s detections odom = Some (r, s')"
    by (auto simp: step_def)
  from update_last_update [OF u] show ?thesis by (cases "status r = Ok") auto
next
  case (VisionCycle rois' tf)
  with assms show ?thesis by (simp add: step_def update_vision_last_update)
qed

lemma run_last_update_sorted:
  "run ops s calls = Some states \<Longrightarrow> sorted (map m_last_update (s # states))"
proof (induction calls arbitrary: s states)
  case Nil
  then show ?case by simp
next
  case (Cons c cs)
  from Cons.prems obtain s' rest where
    st: "step ops s c = Some s'" and rest: "run ops s' cs = Some rest" and
    states: "states = s' # rest"
    by (auto split: option.splits)
  from Cons.IH [OF rest] step_last_update [OF st] states show ?case by auto
qed

text \<open>
  C6: a detection cycle that returns Ok sets the last-update timestamp to the capture
  time of the batch, which is not less than the timestamp before; a cycle that returns
  another status leaves it unchanged. Along any sequence of detection cycles and vision
  updates, the timestamps of the trackers before and after each call are in
  non-decreasing order.
\<close>

theorem last_update_monotone:
  "(update ops s detections odom = Some (r, s') \<longrightarrow>
      (status r = Ok \<longrightarrow>
         m_last_update s' = from_message (stamp (det_header detections))
         \<and> m_last_update s \<le> m_last_update s')
      \<and> (status r \<noteq> Ok \<longrightarrow> m_last_update s' = m_last_update s))
   \<and> (run ops s calls = Some states \<longrightarrow> sorted (map m_last_update (s # states)))"
  using update_last_update [of ops s detections odom r s'] run_last_update_sorted [of ops s calls states]
  by auto

theorem last_update_monotone_witness:
  "update example_ops example_tracker (example_detections 12)
     (example_odometry identity_quaternion) =
   Some (\<lparr>status = Ok,
          result_objects =
            Some \<lparr>trk_header = \<lparr>stamp = \<lparr>stamp_sec = 12, stamp_nanosec = 0\<rparr>,
                                frame_id = ''map''\<rparr>,
                  trk_objects = [(5, 7, 0), (2, 2, 2)]\<rparr>\<rparr>,
         example_tracker\<lparr>m_objects := [(5, 7, 0), (2, 2, 2)], m_last_update := 12000000000\<rparr>)
   \<and> m_last_update example_tracker = 10000000000
   \<and> from_message (stamp (det_header (example_detections 12))) = 12000000000
   \<and> run example_ops example_tracker
        [VisionCycle example_rois example_camera_transform,
         DetectionCycle (example_detections 9) (example_odometry identity_quaternion)] =
       Some [example_tracker\<lparr>m_objects := [(4, 9, 0), (2, 2, 1)]\<rparr>,
             example_tracker\<lparr>m_objects := [(4, 9, 0), (2, 2, 1)]\<rparr>]
   \<and> sorted (map m_last_update
        [example_tracker, example_tracker\<lparr>m_objects := [(4, 9, 0), (2, 2, 1)]\<rparr>,
         example_tracker\<lparr>m_objects := [(4, 9, 0), (2, 2, 1)]\<rparr>])"
proof -
  let ?seen = "example_tracker\<lparr>m_objects := [(4, 9, 0), (2, 2, 1)]\<rparr>"
  let ?odom = "example_odometry identity_quaternion"
  have "validate ?seen (example_detections 9) ?odom = WentBackInTime"
    by (simp add: validate_def example_tracker_def example_detections_def from_message_def)
  then have rejected: "update example_ops ?seen (example_detections 9) ?odom =
                         Some (\<lparr>status = WentBackInTime, result_objects = None\<rparr>, ?seen)"
    using update_rejected [of ?seen "example_detections 9" ?odom example_ops] by simp
  have sequence: "run example_ops example_tracker
        [VisionCycle example_rois example_camera_transform,
         DetectionCycle (example_detections 9) ?odom] = Some [?seen, ?seen]"
  proof -
    have first: "step example_ops example_tracker
                   (VisionCycle example_rois example_camera_transform) = Some ?seen"
      by (simp only: step_def call.case example_update_vision)
    have second: "step example_ops ?seen (DetectionCycle (example_detections 9) ?odom)
                    = Some ?seen"
      by (simp only: step_def call.case rejected option.map snd_conv)
    show ?thesis
      by (simp only: run.simps first second option.case option.map)
  qed
  have stamps: "m_last_update example_tracker = 10000000000"
    "from_message (stamp (det_header (example_detections 12))) = 12000000000"
    by (simp_all add: example_tracker_def example_detections_def from_message_def)
  from last_update_monotone [of example_ops example_tracker "example_detections 12" ?odom
      _ _ "[VisionCycle example_rois example_camera_transform,
            DetectionCycle (example_detections 9) ?odom]" "[?seen, ?seen]"]
    example_update sequence stamps
  show ?thesis by blast
qed

section \<open>The loops over the tracks\<close>

lemma modify_at_Some:
  "modify_at i f xs = Some ys \<longleftrightarrow> i < length xs \<and> ys = xs[i := f (xs ! i)]"
  by (auto simp: modify_at_def index_at_def)

lemma index_at_Some: "index_at xs i = Some x \<longleftrightarrow> i < length xs \<and> x = xs ! i"
  by (auto simp: index_at_def)

lemma index_at_None: "index_at xs i = None \<longleftrightarrow> length xs \<le> i"
  by (auto simp: index_at_def)

lemma update_assigned_nth:
  assumes "update_assigned upd a d idxs objs = Some objs'" and "distinct idxs"
  shows "length objs' = length objs \<and>
         (\<forall>i<length objs. objs' ! i =
            (if i \<in> set idxs \<and> track_assignments a ! i \<noteq> UNASSIGNED
             then upd (objects d ! (track_assignments a ! i)) (objs ! i) else objs ! i))"
  using assms
proof (induction idxs arbitrary: objs)
  case Nil
  then show ?case by simp
next
  case (Cons j idxs)
  from Cons.prems(1) obtain e where e: "index_at (track_assignments a) j = Some e"
    by (auto split: option.splits)
  show ?case
  proof (cases "e = UNASSIGNED")
    case True
    with Cons.prems e have "update_assigned upd a d idxs objs = Some objs'" by simp
    from Cons.IH [OF this] Cons.prems(2) e True show ?thesis
      by (auto simp: index_at_Some)
  next
    case False
    with Cons.prems(1) e obtain x mid where
      x: "index_at (objects d) e = Some x" and
      mid: "modify_at j (upd x) objs = Some mid" and
      rest: "update_assigned upd a d idxs mid = Some objs'"
      by (auto split: option.splits)
    from mid have j: "j < length objs" and mid_eq: "mid = objs[j := upd x (objs ! j)]"
      by (simp_all add: modify_at_Some)
    from Cons.IH [OF rest] Cons.prems(2)
    have len: "length objs' = length mid"
      and nth: "\<And>i. i < length mid \<Longrightarrow> objs' ! i =
            (if i \<in> set idxs \<and> track_assignments a ! i \<noteq> UNASSIGNED
             then upd (objects d ! (track_assignments a ! i)) (mid ! i) else mid ! i)"
      by simp_all
    have "objs' ! i =
            (if i \<in> set (j # idxs) \<and> track_assignments a ! i \<noteq> UNASSIGNED
             then upd (objects d ! (track_assignments a ! i)) (objs ! i) else objs ! i)"
      if "i < length objs" for i
    proof (cases "i = j")
      case True
      with Cons.prems(2) have "i \<notin> set idxs" by simp
      with nth [of i] that True e x False show ?thesis
        by (simp add: mid_eq index_at_Some)
    next
      case False
      with nth [of i] that show ?thesis by (simp add: mid_eq)
    qed
    with len show ?thesis by (simp add: mid_eq)
  qed
qed

lemma no_update_unassigned_nth:
  assumes "no_update_unassigned noupd idxs objs = Some objs'" and "distinct idxs"
  shows "length objs' = length objs \<and> (\<forall>i\<in>set idxs. i < length objs) \<and>
         (\<forall>i<length objs. objs' ! i = (if i \<in> set idxs then noupd (objs ! i) else objs ! i))"
  using assms
proof (induction idxs arbitrary: objs)
  case Nil
  then show ?case by simp
next
  case (Cons j idxs)
  from Cons.prems(1) obtain mid where
    mid: "modify_at j noupd objs = Some mid" and
    rest: "no_update_unassigned noupd idxs mid = Some objs'"
    by (auto split: option.splits)
  from mid have j: "j < length objs" and mid_eq: "mid = objs[j := noupd (objs ! j)]"
    by (simp_all add: modify_at_Some)
  from Cons.IH [OF rest] Cons.prems(2)
  have len: "length objs' = length mid" and bound: "\<forall>i\<in>set idxs. i < length mid"
    and nth: "\<And>i. i < length mid \<Longrightarrow>
                objs' ! i = (if i \<in> set idxs then noupd (mid ! i) else mid ! i)"
    by simp_all
  have "objs' ! i = (if i \<in> set (j # idxs) then noupd (objs ! i) else objs ! i)"
    if "i < length objs" for i
  proof (cases "i = j")
    case True
    with Cons.prems(2) have "i \<notin> set idxs" by simp
    with nth [of i] that True show ?thesis by (simp add: mid_eq)
  next
    case False
    with nth [of i] that show ?thesis by (simp add: mid_eq)
  qed
  with len bound j show ?case by (simp add: mid_eq)
qed

lemma update_tracks_nth:
  assumes "update_tracks upd noupd a d objs = Some objs'"
    and "associator_contract a (length objs)"
    and "i < length objs"
  shows "length objs' = length objs \<and>
         objs' ! i = (if track_assignments a ! i \<noteq> UNASSIGNED
                      then upd (objects d ! (track_assignments a ! i)) (objs ! i)
                      else noupd (objs ! i))"
proof -
  from assms(1) obtain mid where
    mid: "update_assigned upd a d [0..<length objs] objs = Some mid" and
    fin: "no_update_unassigned noupd (unassigned_track_indices a) mid = Some objs'"
    by (auto simp: update_tracks_def split: option.splits)
  from update_assigned_nth [OF mid] assms(3)
  have l1: "length mid = length objs"
    and n1: "mid ! i = (if track_assignments a ! i \<noteq> UNASSIGNED
                        then upd (objects d ! (track_assignments a ! i)) (objs ! i) else objs ! i)"
    by simp_all
  from assms(2) have dist: "distinct (unassigned_track_indices a)"
    and xor: "(track_assignments a ! i \<noteq> UNASSIGNED) \<noteq> (i \<in> set (unassigned_track_indices a))"
    using assms(3) by (simp_all add: associator_contract_def list_all_iff)
  from no_update_unassigned_nth [OF fin dist] assms(3) l1
  have l2: "length objs' = length mid"
    and n2: "objs' ! i = (if i \<in> set (unassigned_track_indices a) then noupd (mid ! i) else mid ! i)"
    by simp_all
  from l1 l2 n1 n2 xor show ?thesis by auto
qed


lemma update_classified_nth:
  assumes "update_classified upd a r idxs objs = Some objs'" and "distinct idxs"
  shows "length objs' = length objs \<and>
         (\<forall>i<length objs. objs' ! i =
            (if i \<in> set idxs \<and> track_assignments a ! i \<noteq> UNASSIGNED
             then upd (classifications (rois r ! (track_assignments a ! i))) (objs ! i)
             else objs ! i))"
  using assms
proof (induction idxs arbitrary: objs)
  case Nil
  then show ?case by simp
next
  case (Cons j idxs)
  from Cons.prems(1) obtain e where e: "index_at (track_assignments a) j = Some e"
    by (auto split: option.splits)
  show ?case
  proof (cases "e = UNASSIGNED")
    case True
    with Cons.prems e have "update_classified upd a r idxs objs = Some objs'" by simp
    from Cons.IH [OF this] Cons.prems(2) e True show ?thesis
      by (auto simp: index_at_Some)
  next
    case False
    with Cons.prems(1) e obtain x mid where
      x: "index_at (rois r) e = Some x" and
      mid: "modify_at j (upd (classifications x)) objs = Some mid" and
      rest: "update_classified upd a r idxs mid = Some objs'"
      by (auto split: option.splits)
    from mid have j: "j < length objs"
      and mid_eq: "mid = objs[j := upd (classifications x) (objs ! j)]"
      by (simp_all add: modify_at_Some)
    from Cons.IH [OF rest] Cons.prems(2)
    have len: "length objs' = length mid"
      and nth: "\<And>i. i < length mid \<Longrightarrow> objs' ! i =
            (if i \<in> set idxs \<and> track_assignments a ! i \<noteq> UNASSIGNED
             then upd (classifications (rois r ! (track_assignments a ! i))) (mid ! i)
             else mid ! i)"
      by simp_all
    have "objs' ! i =
            (if i \<in> set (j # idxs) \<and> track_assignments a ! i \<noteq> UNASSIGNED
             then upd (classifications (rois r ! (track_assignments a ! i))) (objs ! i)
             else objs ! i)"
      if "i < length objs" for i
    proof (cases "i = j")
      case True
      with Cons.prems(2) have "i \<notin> set idxs" by simp
      with nth [of i] that True e x False show ?thesis
        by (simp add: mid_eq index_at_Some)
    next
      case False
      with nth [of i] that show ?thesis by (simp add: mid_eq)
    qed
    with len show ?thesis by (simp add: mid_eq)
  qed
qed

subsection \<open>Reads in range\<close>

lemma update_assigned_Some:
  assumes "\<forall>i\<in>set idxs. i < length (track_assignments a) \<and> i < length objs"
    and "\<forall>e\<in>set (track_assignments a). e \<noteq> UNASSIGNED \<longrightarrow> e < length (objects d)"
  shows "\<exists>objs'. update_assigned upd a d idxs objs = Some objs' \<and> length objs' = length objs"
  using assms(1)
proof (induction idxs arbitrary: objs)
  case Nil
  then show ?case by simp
next
  case (Cons j idxs)
  then have j: "j < length (track_assignments a)" "j < length objs" by simp_all
  let ?e = "track_assignments a ! j"
  show ?case
  proof (cases "?e = UNASSIGNED")
    case True
    with Cons j show ?thesis by (simp add: index_at_def)
  next
    case False
    with assms(2) j have e: "?e < length (objects d)" by simp
    let ?mid = "objs[j := upd (objects d ! ?e) (objs ! j)]"
    from Cons.prems have "\<forall>i\<in>set idxs. i < length (track_assignments a) \<and> i < length ?mid"
      by simp
    from Cons.IH [OF this] False j e show ?thesis
      by (simp add: index_at_def modify_at_def)
  qed
qed

lemma no_update_unassigned_Some:
  assumes "\<forall>i\<in>set idxs. i < length objs"
  shows "\<exists>objs'. no_update_unassigned noupd idxs objs = Some objs'"
  using assms
proof (induction idxs arbitrary: objs)
  case Nil
  then show ?case by simp
next
  case (Cons j idxs)
  let ?mid = "objs[j := noupd (objs ! j)]"
  from Cons.prems have "\<forall>i\<in>set idxs. i < length ?mid" by simp
  from Cons.IH [OF this] Cons.prems show ?case
    by (simp add: index_at_def modify_at_def)
qed

lemma update_classified_Some:
  assumes "\<forall>i\<in>set idxs. i < length (track_assignments a) \<and> i < length objs"
    and "\<forall>e\<in>set (track_assignments a). e \<noteq> UNASSIGNED \<longrightarrow> e < length (rois r)"
  shows "\<exists>objs'. update_classified upd a r idxs objs = Some objs'"
  using assms(1)
proof (induction idxs arbitrary: objs)
  case Nil
  then show ?case by simp
next
  case (Cons j idxs)
  then have j: "j < length (track_assignments a)" "j < length objs" by simp_all
  let ?e = "track_assignments a ! j"
  show ?case
  proof (cases "?e = UNASSIGNED")
    case True
    with Cons j show ?thesis by (simp add: index_at_def)
  next
    case False
    with assms(2) j have e: "?e < length (rois r)" by simp
    let ?mid = "objs[j := upd (classifications (rois r ! ?e)) (objs ! j)]"
    from Cons.prems have "\<forall>i\<in>set idxs. i < length (track_assignments a) \<and> i < length ?mid"
      by simp
    from Cons.IH [OF this] False j e show ?thesis
      by (simp add: index_at_def modify_at_def)
  qed
qed

lemma update_tracks_Some:
  assumes "well_formed a (length objs) (length (objects d))"
  shows "\<exists>objs'. update_tracks upd noupd a d objs = Some objs'"
proof -
  from assms have len: "length (track_assignments a) = length objs"
    and obs: "\<forall>e\<in>set (track_assignments a). e \<noteq> UNASSIGNED \<longrightarrow> e < length (objects d)"
    and un: "\<forall>i\<in>set (unassigned_track_indices a). i < length objs"
    by (simp_all add: well_formed_def list_all_iff)
  from len have "\<forall>i\<in>set [0..<length objs]. i < length (track_assignments a) \<and> i < length objs"
    by simp
  from update_assigned_Some [OF this obs, of upd] obtain mid where
    mid: "update_assigned upd a d [0..<length objs] objs = Some mid"
    and l: "length mid = length objs" by blast
  from un l have "\<forall>i\<in>set (unassigned_track_indices a). i < length mid" by simp
  from no_update_unassigned_Some [OF this, of noupd] mid show ?thesis
    by (simp add: update_tracks_def)
qed

lemma length_transform [simp]:
  "length (objects (transform s detections odom)) = length (objects detections)"
  by (simp add: transform_def)

lemma length_predicted_objects [simp]:
  "length (predicted_objects ops s detections) = length (m_objects s)"
  by (simp add: predicted_objects_def)

lemma update_Some:
  assumes "well_formed (detection_association ops s detections odom)
             (length (m_objects s)) (length (objects detections))"
  shows "\<exists>r s'. update ops s detections odom = Some (r, s')"
proof (cases "validate s detections odom = Ok")
  case False
  then show ?thesis by (simp add: update_rejected)
next
  case True
  let ?d = "transform s detections odom"
  let ?objs = "predicted_objects ops s ?d"
  let ?a = "object_assign ops ?d ?objs"
  from assms have "well_formed ?a (length ?objs) (length (objects ?d))"
    by (simp add: detection_association_def Let_def)
  from update_tracks_Some [OF this, of "track_update ops" "track_no_update ops"]
  obtain objs' where
    "update_tracks (track_update ops) (track_no_update ops) ?a ?d ?objs = Some objs'" by blast
  with True show ?thesis
    by (simp add: update_def Let_def split: prod.splits)
qed

lemma update_vision_Some:
  assumes "well_formed (vision_assign ops r (m_objects s) tf)
             (length (m_objects s)) (length (rois r))"
  shows "\<exists>s'. update_vision ops s r tf = Some s'"
proof -
  let ?a = "vision_assign ops r (m_objects s) tf"
  from assms have len: "length (track_assignments ?a) = length (m_objects s)"
    and obs: "\<forall>e\<in>set (track_assignments ?a). e \<noteq> UNASSIGNED \<longrightarrow> e < length (rois r)"
    by (simp_all add: well_formed_def list_all_iff)
  from len have "\<forall>i\<in>set [0..<length (m_objects s)].
                   i < length (track_assignments ?a) \<and> i < length (m_objects s)"
    by simp
  from update_classified_Some [OF this obs, of "track_update_classification ops"]
  show ?thesis by (auto simp: update_vision_def Let_def)
qed

text \<open>
  C10: both updates read the assignments, the observations and the tracks at indices
  taken from the associator result, without a check. When the result of the associator
  is well formed for the tracks and the observations of the call (one entry per track,
  every entry other than UNASSIGNED the index of an observation, every unassigned track
  index the index of a track), no read is out of range: the detection cycle and the
  vision update both return.
\<close>

theorem indexing_in_bounds:
  "(well_formed (detection_association ops s detections odom)
      (length (m_objects s)) (length (objects detections)) \<longrightarrow>
    (\<exists>r s'. update ops s detections odom = Some (r, s')))
   \<and> (well_formed (vision_assign ops rois' (m_objects s) tf)
        (length (m_objects s)) (length (rois rois')) \<longrightarrow>
      (\<exists>s'. update_vision ops s rois' tf = Some s'))"
  by (simp add: update_Some update_vision_Some)

theorem indexing_in_bounds_witness:
  "well_formed
     (detection_association example_ops example_tracker (example_detections 12)
        (example_odometry identity_quaternion))
     (length (m_objects example_tracker)) (length (objects (example_detections 12)))
   \<and> (\<exists>r s'. update example_ops example_tracker (example_detections 12)
                (example_odometry identity_quaternion) = Some (r, s'))
   \<and> well_formed
       (vision_assign example_ops example_rois (m_objects example_tracker)
          example_camera_transform)
       (length (m_objects example_tracker)) (length (rois example_rois))
   \<and> (\<exists>s'. update_vision example_ops example_tracker example_rois example_camera_transform
             = Some s')"
proof -
  have d: "well_formed
     (detection_association example_ops example_tracker (example_detections 12)
        (example_odometry identity_quaternion))
     (length (m_objects example_tracker)) (length (objects (example_detections 12)))"
    unfolding example_detection_association
    by (simp add: well_formed_def example_tracker_def example_detections_def)
  have v: "well_formed
       (vision_assign example_ops example_rois (m_objects example_tracker)
          example_camera_transform)
       (length (m_objects example_tracker)) (length (rois example_rois))"
    by (simp add: well_formed_def example_ops_def example_rois_def example_tracker_def
        pair_off_def numeral_2_eq_2)
  from indexing_in_bounds [of example_ops example_tracker "example_detections 12"
      "example_odometry identity_quaternion" example_rois example_camera_transform] d v
  show ?thesis by blast
qed

subsection \<open>The frame of the vision update\<close>

text \<open>
  C9: a vision update that returns leaves the number of live tracks, the last-update
  timestamp and the options as they were. A track without an assigned region is
  unchanged; a track with one has its classification update applied, with the
  classifications of that region, and nothing else. So whatever of a track the
  classification update of a track leaves alone (its kinematic state) is the same after
  the call as before. The regions reach the track creator through \<open>add_rois\<close> and nothing
  else.
\<close>

theorem update_vision_frame:
  assumes "update_vision ops s rois' tf = Some s'"
    and "\<forall>c t. kinematics (track_update_classification ops c t) = kinematics t"
  shows "length (m_objects s') = length (m_objects s)
         \<and> map kinematics (m_objects s') = map kinematics (m_objects s)
         \<and> m_last_update s' = m_last_update s
         \<and> m_options s' = m_options s
         \<and> m_track_creator s' =
             add_rois ops rois' (vision_assign ops rois' (m_objects s) tf) (m_track_creator s)
         \<and> (\<forall>i<length (m_objects s).
               m_objects s' ! i =
                 (let roi_idx = track_assignments (vision_assign ops rois' (m_objects s) tf) ! i
                  in if roi_idx \<noteq> UNASSIGNED
                     then track_update_classification ops
                            (classifications (rois rois' ! roi_idx)) (m_objects s ! i)
                     else m_objects s ! i))"
proof -
  let ?a = "vision_assign ops rois' (m_objects s) tf"
  from assms(1) obtain objs where
    loop: "update_classified (track_update_classification ops) ?a rois'
             [0..<length (m_objects s)] (m_objects s) = Some objs"
    and s': "s' = s\<lparr>m_objects := objs,
                    m_track_creator := add_rois ops rois' ?a (m_track_creator s)\<rparr>"
    by (auto simp: update_vision_def Let_def split: option.splits)
  from update_classified_nth [OF loop]
  have len: "length objs = length (m_objects s)"
    and nth: "\<And>i. i < length (m_objects s) \<Longrightarrow> objs ! i =
            (if track_assignments ?a ! i \<noteq> UNASSIGNED
             then track_update_classification ops
                    (classifications (rois rois' ! (track_assignments ?a ! i))) (m_objects s ! i)
             else m_objects s ! i)"
    by simp_all
  have "map kinematics objs = map kinematics (m_objects s)"
    by (rule nth_equalityI) (simp_all add: len nth assms(2))
  with len nth show ?thesis by (simp add: s' Let_def)
qed

theorem update_vision_frame_witness:
  "update_vision example_ops example_tracker example_rois example_camera_transform =
     Some (example_tracker\<lparr>m_objects := [(4, 9, 0), (2, 2, 1)]\<rparr>)
   \<and> map (\<lambda>(u, l, k). (u, k)) [(4, 9, 0), (2, 2, 1)] =
       map (\<lambda>(u, l, k). (u, k)) (m_objects example_tracker)
   \<and> m_last_update (example_tracker\<lparr>m_objects := [(4, 9, 0), (2, 2, 1)]\<rparr>) =
       m_last_update example_tracker"
proof -
  have kin: "\<forall>c t. (\<lambda>(u, l, k). (u, k)) (track_update_classification example_ops c t)
                   = (\<lambda>(u, l, k). (u, k)) t"
    by (simp add: example_ops_def split_beta)
  from update_vision_frame [OF example_update_vision kin] example_update_vision
  show ?thesis by simp
qed

subsection \<open>One call per track\<close>

lemma modify_at_recording:
  assumes "modify_at i (\<lambda>(t, calls). (f t, calls @ [c])) objs = Some objs'"
  shows "modify_at i f (map fst objs) = Some (map fst objs')"
  using assms
  by (auto simp: modify_at_def index_at_def map_update split_beta split: if_splits)

lemma update_assigned_recording:
  "update_assigned (recording_update upd) a d idxs objs = Some objs' \<Longrightarrow>
   update_assigned upd a d idxs (map fst objs) = Some (map fst objs')"
proof (induction idxs arbitrary: objs)
  case Nil
  then show ?case by auto
next
  case (Cons j idxs)
  show ?case
  proof (cases "index_at (track_assignments a) j")
    case None
    with Cons.prems show ?thesis by simp
  next
    case (Some e)
    show ?thesis
    proof (cases "e = UNASSIGNED")
      case True
      with Cons Some show ?thesis by simp
    next
      case False
      with Cons.prems Some obtain x mid where
        x: "index_at (objects d) e = Some x" and
        mid: "modify_at j (recording_update upd x) objs = Some mid" and
        rest: "update_assigned (recording_update upd) a d idxs mid = Some objs'"
        by (auto split: option.splits)
      from mid have "modify_at j (upd x) (map fst objs) = Some (map fst mid)"
        unfolding recording_update_def by (rule modify_at_recording)
      with Cons.IH [OF rest] Some False x show ?thesis by simp
    qed
  qed
qed

lemma no_update_unassigned_recording:
  "no_update_unassigned (recording_no_update noupd) idxs objs = Some objs' \<Longrightarrow>
   no_update_unassigned noupd idxs (map fst objs) = Some (map fst objs')"
proof (induction idxs arbitrary: objs)
  case Nil
  then show ?case by auto
next
  case (Cons j idxs)
  from Cons.prems obtain mid where
    mid: "modify_at j (recording_no_update noupd) objs = Some mid" and
    rest: "no_update_unassigned (recording_no_update noupd) idxs mid = Some objs'"
    by (auto split: option.splits)
  from mid have "modify_at j noupd (map fst objs) = Some (map fst mid)"
    unfolding recording_no_update_def by (rule modify_at_recording)
  with Cons.IH [OF rest] show ?case by simp
qed

lemma update_tracks_recording:
  assumes "update_tracks (recording_update upd) (recording_no_update noupd) a d objs = Some objs'"
  shows "update_tracks upd noupd a d (map fst objs) = Some (map fst objs')"
proof -
  from assms obtain mid where
    mid: "update_assigned (recording_update upd) a d [0..<length objs] objs = Some mid" and
    fin: "no_update_unassigned (recording_no_update noupd) (unassigned_track_indices a) mid
            = Some objs'"
    by (auto simp: update_tracks_def split: option.splits)
  from update_assigned_recording [OF mid] no_update_unassigned_recording [OF fin]
  show ?thesis by (simp add: update_tracks_def)
qed

lemma update_accepted_result:
  assumes "validate s detections odom = Ok"
    and "update ops s detections odom = Some (r, s')"
  shows "\<exists>objs'.
           update_tracks (track_update ops) (track_no_update ops)
             (detection_association ops s detections odom)
             (transform s detections odom)
             (predicted_objects ops s (transform s detections odom)) = Some objs'
           \<and> m_objects s' =
               filter
                 (\<lambda>object. \<not> track_should_be_removed ops
                                (pruning_time_threshold (m_options s))
                                (pruning_ticks_threshold (m_options s)) object)
                 (objs' @
                  fst (create_tracks ops
                         (add_objects ops (transform s detections odom)
                            (detection_association ops s detections odom)
                            (m_track_creator s))))
           \<and> m_track_creator s' =
               snd (create_tracks ops
                      (add_objects ops (transform s detections odom)
                         (detection_association ops s detections odom)
                         (m_track_creator s)))
           \<and> m_last_update s' = from_message (stamp (det_header detections))
           \<and> m_options s' = m_options s
           \<and> r = \<lparr>status = Ok,
                   result_objects =
                     Some (convert_to_msg ops (m_options s) (m_objects s')
                             (stamp (det_header detections)))\<rparr>"
  using assms
  by (auto simp: update_def detection_association_def transform_def Let_def
      split: option.splits prod.splits)

lemma update_accepted_intro:
  assumes "validate s detections odom = Ok"
    and "update_tracks (track_update ops) (track_no_update ops)
           (detection_association ops s detections odom)
           (transform s detections odom)
           (predicted_objects ops s (transform s detections odom)) = Some objs'"
  shows "\<exists>r s'. update ops s detections odom = Some (r, s')"
  using assms
  by (auto simp: update_def detection_association_def Let_def split: prod.splits)

lemma recording_simps:
  "track_predict (recording ops) dt x = (track_predict ops dt (fst x), snd x)"
  "track_update (recording ops) = recording_update (track_update ops)"
  "track_no_update (recording ops) = recording_no_update (track_no_update ops)"
  "track_should_be_removed (recording ops) a b x = track_should_be_removed ops a b (fst x)"
  "track_msg (recording ops) x = track_msg ops (fst x)"
  "object_assign (recording ops) d ts = object_assign ops d (map fst ts)"
  "add_objects (recording ops) = add_objects ops"
  "fst (create_tracks (recording ops) k) = map (\<lambda>t. (t, [])) (fst (create_tracks ops k))"
  "snd (create_tracks (recording ops) k) = snd (create_tracks ops k)"
  by (simp_all add: recording_def split_beta)

lemma stop_recording_simps [simp]:
  "m_options (stop_recording s) = m_options s"
  "m_objects (stop_recording s) = map fst (m_objects s)"
  "m_last_update (stop_recording s) = m_last_update s"
  "m_track_creator (stop_recording s) = m_track_creator s"
  by (simp_all add: stop_recording_def)

lemma validate_stop_recording [simp]:
  "validate (stop_recording s) detections odom = validate s detections odom"
  by (simp add: validate_def)

lemma transform_stop_recording [simp]:
  "transform (stop_recording s) detections odom = transform s detections odom"
  by (simp add: transform_def)

lemma predicted_objects_recording:
  "predicted_objects ops (stop_recording s) detections =
     map fst (predicted_objects (recording ops) s detections)"
  by (simp add: predicted_objects_def recording_simps Let_def comp_def)

lemma snd_predicted_objects_recording:
  "i < length (m_objects s) \<Longrightarrow>
   snd (predicted_objects (recording ops) s detections ! i) = snd (m_objects s ! i)"
  by (simp add: predicted_objects_def recording_simps Let_def)

lemma detection_association_recording:
  "detection_association (recording ops) s detections odom =
     detection_association ops (stop_recording s) detections odom"
  by (simp add: detection_association_def Let_def recording_simps predicted_objects_recording)

lemma convert_to_msg_recording:
  "convert_to_msg (recording ops) options objs st =
     convert_to_msg ops options (map fst objs) st"
  by (simp add: convert_to_msg_def recording_simps comp_def)

lemma tracker_eqI:
  fixes s t :: "('t, 'k) MultiObjectTracker"
  assumes "m_options s = m_options t" "m_objects s = m_objects t"
    "m_last_update s = m_last_update t" "m_track_creator s = m_track_creator t"
  shows "s = t"
  using assms by (cases s, cases t) simp

lemma update_recording:
  assumes "update (recording ops) s detections odom = Some (r, s')"
  shows "update ops (stop_recording s) detections odom = Some (r, stop_recording s')"
proof (cases "validate s detections odom = Ok")
  case False
  from update_rejected [OF False, of "recording ops"] assms
  have "r = \<lparr>status = validate s detections odom, result_objects = None\<rparr>" and "s' = s"
    by simp_all
  with False show ?thesis by (simp add: update_rejected)
next
  case True
  let ?d = "transform s detections odom"
  let ?t = "stop_recording s"
  let ?a = "detection_association ops ?t detections odom"
  from update_accepted_result [OF True assms] obtain objs' where
    stage: "update_tracks (recording_update (track_update ops))
              (recording_no_update (track_no_update ops)) ?a ?d
              (predicted_objects (recording ops) s ?d) = Some objs'"
    and live: "m_objects s' =
               filter (\<lambda>object. \<not> track_should_be_removed ops
                                (pruning_time_threshold (m_options s))
                                (pruning_ticks_threshold (m_options s)) (fst object))
                 (objs' @ map (\<lambda>t. (t, []))
                    (fst (create_tracks ops (add_objects ops ?d ?a (m_track_creator s)))))"
    and creator: "m_track_creator s' =
                    snd (create_tracks ops (add_objects ops ?d ?a (m_track_creator s)))"
    and time: "m_last_update s' = from_message (stamp (det_header detections))"
    and options: "m_options s' = m_options s"
    and r: "r = \<lparr>status = Ok,
                  result_objects =
                    Some (convert_to_msg ops (m_options s) (map fst (m_objects s'))
                            (stamp (det_header detections)))\<rparr>"
    by (auto simp: recording_simps detection_association_recording convert_to_msg_recording)
  from update_tracks_recording [OF stage]
  have plain: "update_tracks (track_update ops) (track_no_update ops) ?a
                 (transform ?t detections odom)
                 (predicted_objects ops ?t (transform ?t detections odom))
               = Some (map fst objs')"
    by (simp add: predicted_objects_recording)
  have valid: "validate ?t detections odom = Ok" using True by simp
  from update_accepted_intro [OF valid plain] obtain r2 s2 where
    u2: "update ops ?t detections odom = Some (r2, s2)" by blast
  from update_accepted_result [OF valid u2] plain
  have live2: "m_objects s2 =
               filter (\<lambda>object. \<not> track_should_be_removed ops
                                (pruning_time_threshold (m_options s))
                                (pruning_ticks_threshold (m_options s)) object)
                 (map fst objs' @
                    fst (create_tracks ops (add_objects ops ?d ?a (m_track_creator s))))"
    and creator2: "m_track_creator s2 =
                    snd (create_tracks ops (add_objects ops ?d ?a (m_track_creator s)))"
    and time2: "m_last_update s2 = from_message (stamp (det_header detections))"
    and options2: "m_options s2 = m_options s"
    and r2: "r2 = \<lparr>status = Ok,
                  result_objects =
                    Some (convert_to_msg ops (m_options s) (m_objects s2)
                            (stamp (det_header detections)))\<rparr>"
    by auto
  have same_live: "m_objects s2 = map fst (m_objects s')"
    unfolding live live2 by (simp add: filter_map comp_def)
  have "s2 = stop_recording s'"
    by (rule tracker_eqI) (simp_all add: same_live creator creator2 time time2 options options2)
  moreover have "r2 = r" by (simp add: r r2 same_live)
  ultimately show ?thesis using u2 by simp
qed

lemma update_tracks_length:
  assumes "update_tracks upd noupd a d objs = Some objs'"
    and "associator_contract a (length objs)"
  shows "length objs' = length objs"
proof -
  from assms(1) obtain mid where
    mid: "update_assigned upd a d [0..<length objs] objs = Some mid" and
    fin: "no_update_unassigned noupd (unassigned_track_indices a) mid = Some objs'"
    by (auto simp: update_tracks_def split: option.splits)
  from assms(2) have dist: "distinct (unassigned_track_indices a)"
    by (simp add: associator_contract_def)
  from update_assigned_nth [OF mid] no_update_unassigned_nth [OF fin dist]
  show ?thesis by simp
qed

lemma update_tracks_one_call:
  assumes "update_tracks (recording_update upd) (recording_no_update noupd)
             a detections objs = Some objs'"
    and "associator_contract a (length objs)"
    and "i < length objs"
  shows "length objs' = length objs
         \<and> snd (objs' ! i) =
             snd (objs ! i) @
               [if track_assignments a ! i \<noteq> UNASSIGNED then CalledUpdate else CalledNoUpdate]"
  using update_tracks_nth [OF assms]
  by (simp add: recording_update_def recording_no_update_def split_beta)

lemma start_recording_simps [simp]:
  "m_options (start_recording s) = m_options s"
  "m_objects (start_recording s) = map (\<lambda>t. (t, [])) (m_objects s)"
  "m_last_update (start_recording s) = m_last_update s"
  "m_track_creator (start_recording s) = m_track_creator s"
  by (simp_all add: start_recording_def)

lemma validate_start_recording [simp]:
  "validate (start_recording s) detections odom = validate s detections odom"
  by (simp add: validate_def)

lemma transform_start_recording [simp]:
  "transform (start_recording s) detections odom = transform s detections odom"
  by (simp add: transform_def)

lemma example_recorded_update:
  "update (recording example_ops) (start_recording example_tracker) (example_detections 12)
     (example_odometry identity_quaternion) =
   Some (\<lparr>status = Ok,
          result_objects =
            Some \<lparr>trk_header = \<lparr>stamp = \<lparr>stamp_sec = 12, stamp_nanosec = 0\<rparr>,
                                frame_id = ''map''\<rparr>,
                  trk_objects = [(5, 7, 0), (2, 2, 2)]\<rparr>\<rparr>,
         (start_recording example_tracker)
           \<lparr>m_objects := [((5, 7, 0), [CalledUpdate]), ((2, 2, 2), [CalledNoUpdate])],
            m_last_update := 12000000000\<rparr>)"
proof -
  let ?odom = "example_odometry identity_quaternion"
  let ?dets = "transform example_tracker (example_detections 12) ?odom"
  let ?assoc = "\<lparr>track_assignments = [0, UNASSIGNED], unassigned_detection_indices = [],
                 unassigned_track_indices = [1], had_errors = True\<rparr>"
  let ?objs = "[((4, 1, 0), []), ((2, 2, 1), [])] :: (example_track \<times> track_call list) list"
  have valid: "validate (start_recording example_tracker) (example_detections 12) ?odom = Ok"
    by (simp add: example_validate_Ok)
  have moved: "transform (start_recording example_tracker) (example_detections 12) ?odom = ?dets"
    by simp
  have objs: "predicted_objects (recording example_ops) (start_recording example_tracker) ?dets
                = ?objs"
    by (simp add: predicted_objects_def example_tracker_def example_ops_def recording_simps)
  have "object_assign (recording example_ops) ?dets ?objs
          = object_assign example_ops ?dets [(4, 1, 0), (2, 2, 1)]"
    by (simp add: recording_simps)
  also have "\<dots> = ?assoc"
    by (rule example_object_assign
          [where x = "(transform_detection ?odom example_detection)\<lparr>classification := 7\<rparr>"])
      (simp_all add: example_transform example_transform_polygon)
  finally have assoc: "object_assign (recording example_ops) ?dets ?objs = ?assoc" .
  have tracks: "update_tracks (track_update (recording example_ops))
                  (track_no_update (recording example_ops)) ?assoc ?dets ?objs =
                Some [((5, 7, 0), [CalledUpdate]), ((2, 2, 2), [CalledNoUpdate])]"
    unfolding example_transform
    by (simp add: update_tracks_def recording_simps recording_update_def
        recording_no_update_def example_ops_def numeral_2_eq_2 index_at_def modify_at_def
        UNASSIGNED_def)
  have creator: "create_tracks (recording example_ops)
                   (add_objects (recording example_ops) ?dets ?assoc
                      (m_track_creator (start_recording example_tracker))) = ([], 0)"
    by (simp add: recording_def example_ops_def example_tracker_def)
  have stamp: "stamp (det_header ?dets) = \<lparr>stamp_sec = 12, stamp_nanosec = 0\<rparr>"
    by (simp add: example_transform)
  show ?thesis
    apply (simp only: update_def Let_def valid moved objs assoc tracks creator stamp)
    apply (simp add: recording_def example_ops_def example_tracker_def convert_to_msg_def
        from_message_def start_recording_def)
    done
qed

lemma example_recorded_association:
  "detection_association (recording example_ops) (start_recording example_tracker)
     (example_detections 12) (example_odometry identity_quaternion) =
   \<lparr>track_assignments = [0, UNASSIGNED], unassigned_detection_indices = [],
    unassigned_track_indices = [1], had_errors = True\<rparr>"
proof -
  have "stop_recording (start_recording example_tracker) = example_tracker"
    by (simp add: stop_recording_def start_recording_def comp_def example_tracker_def)
  then show ?thesis
    by (simp add: detection_association_recording example_detection_association)
qed

text \<open>
  C7: run a detection cycle with collaborators that record, for every track, the calls
  of \<open>update\<close> and \<open>no_update\<close> it receives. When the cycle passes validation and returns,
  and the associator result satisfies the contract (each track index has an assignment
  or is listed as unassigned, never both, and is listed at most once), the cycle has run
  its update stage on the predicted tracks, and after that stage every track that was
  alive at association time has exactly one more call on record than before the cycle:
  \<open>update\<close> when it has an assignment, \<open>no_update\<close> when it has none. The live tracks after
  the cycle are those tracks and the newly created ones, which have received no call,
  less the pruned ones: the cycle makes no other call. Without the records the cycle is
  the cycle of the plain collaborators.
\<close>

theorem each_track_one_call:
  assumes "validate s detections odom = Ok"
    and "update (recording ops) s detections odom = Some (r, s')"
    and "associator_contract (detection_association (recording ops) s detections odom)
           (length (m_objects s))"
  shows "\<exists>objs'.
           update_tracks (track_update (recording ops)) (track_no_update (recording ops))
             (detection_association (recording ops) s detections odom)
             (transform s detections odom)
             (predicted_objects (recording ops) s (transform s detections odom)) = Some objs'
           \<and> length objs' = length (m_objects s)
           \<and> (\<forall>i<length (m_objects s).
                 snd (objs' ! i) =
                   snd (m_objects s ! i) @
                     [if track_assignments
                           (detection_association (recording ops) s detections odom) ! i
                         \<noteq> UNASSIGNED
                      then CalledUpdate else CalledNoUpdate])
           \<and> m_objects s' =
               filter
                 (\<lambda>object. \<not> track_should_be_removed (recording ops)
                                (pruning_time_threshold (m_options s))
                                (pruning_ticks_threshold (m_options s)) object)
                 (objs' @
                  fst (create_tracks (recording ops)
                         (add_objects (recording ops) (transform s detections odom)
                            (detection_association (recording ops) s detections odom)
                            (m_track_creator s))))
           \<and> list_all (\<lambda>object. snd object = [])
               (fst (create_tracks (recording ops)
                       (add_objects (recording ops) (transform s detections odom)
                          (detection_association (recording ops) s detections odom)
                          (m_track_creator s))))
           \<and> update ops (stop_recording s) detections odom = Some (r, stop_recording s')"
proof -
  let ?a = "detection_association (recording ops) s detections odom"
  let ?d = "transform s detections odom"
  let ?objs = "predicted_objects (recording ops) s ?d"
  from update_accepted_result [OF assms(1,2)] obtain objs' where
    stage: "update_tracks (track_update (recording ops)) (track_no_update (recording ops))
              ?a ?d ?objs = Some objs'"
    and live: "m_objects s' =
               filter
                 (\<lambda>object. \<not> track_should_be_removed (recording ops)
                                (pruning_time_threshold (m_options s))
                                (pruning_ticks_threshold (m_options s)) object)
                 (objs' @
                  fst (create_tracks (recording ops)
                         (add_objects (recording ops) ?d ?a (m_track_creator s))))"
    by blast
  from stage have recorded: "update_tracks (recording_update (track_update ops))
              (recording_no_update (track_no_update ops)) ?a ?d ?objs = Some objs'"
    by (simp add: recording_simps)
  from assms(3) have contract: "associator_contract ?a (length ?objs)" by simp
  have len: "length objs' = length (m_objects s)"
    and calls: "\<forall>i<length (m_objects s).
                 snd (objs' ! i) =
                   snd (m_objects s ! i) @
                     [if track_assignments ?a ! i \<noteq> UNASSIGNED
                      then CalledUpdate else CalledNoUpdate]"
    using update_tracks_one_call [OF recorded contract]
      update_tracks_length [OF recorded contract]
    by (simp_all add: snd_predicted_objects_recording)
  have fresh: "list_all (\<lambda>object. snd object = [])
               (fst (create_tracks (recording ops)
                       (add_objects (recording ops) ?d ?a (m_track_creator s))))"
    by (simp add: recording_simps list_all_iff)
  from stage len calls live fresh update_recording [OF assms(2)]
  show ?thesis by blast
qed

theorem each_track_one_call_witness:
  "validate (start_recording example_tracker) (example_detections 12)
     (example_odometry identity_quaternion) = Ok
   \<and> update (recording example_ops) (start_recording example_tracker) (example_detections 12)
       (example_odometry identity_quaternion) =
     Some (\<lparr>status = Ok,
            result_objects =
              Some \<lparr>trk_header = \<lparr>stamp = \<lparr>stamp_sec = 12, stamp_nanosec = 0\<rparr>,
                                  frame_id = ''map''\<rparr>,
                    trk_objects = [(5, 7, 0), (2, 2, 2)]\<rparr>\<rparr>,
           (start_recording example_tracker)
             \<lparr>m_objects := [((5, 7, 0), [CalledUpdate]), ((2, 2, 2), [CalledNoUpdate])],
              m_last_update := 12000000000\<rparr>)
   \<and> associator_contract
       (detection_association (recording example_ops) (start_recording example_tracker)
          (example_detections 12) (example_odometry identity_quaternion))
       (length (m_objects (start_recording example_tracker)))
   \<and> update example_ops (stop_recording (start_recording example_tracker))
       (example_detections 12) (example_odometry identity_quaternion) =
     Some (\<lparr>status = Ok,
            result_objects =
              Some \<lparr>trk_header = \<lparr>stamp = \<lparr>stamp_sec = 12, stamp_nanosec = 0\<rparr>,
                                  frame_id = ''map''\<rparr>,
                    trk_objects = [(5, 7, 0), (2, 2, 2)]\<rparr>\<rparr>,
           stop_recording
             ((start_recording example_tracker)
                \<lparr>m_objects := [((5, 7, 0), [CalledUpdate]), ((2, 2, 2), [CalledNoUpdate])],
                 m_last_update := 12000000000\<rparr>))"
proof -
  have valid: "validate (start_recording example_tracker) (example_detections 12)
                 (example_odometry identity_quaternion) = Ok"
    by (simp add: example_validate_Ok)
  have contract: "associator_contract
       (detection_association (recording example_ops) (start_recording example_tracker)
          (example_detections 12) (example_odometry identity_quaternion))
       (length (m_objects (start_recording example_tracker)))"
    unfolding example_recorded_association
    by (simp add: associator_contract_def example_tracker_def numeral_2_eq_2 UNASSIGNED_def)
  from each_track_one_call [OF valid example_recorded_update contract]
    valid example_recorded_update contract
  show ?thesis by blast
qed

section \<open>The frame transform\<close>

lemma rotation_matrix_identity:
  "rotation_matrix \<lparr>quat_x = 0, quat_y = 0, quat_z = 0, quat_w = 1\<rparr> =
     \<lparr>m00 = 1, m01 = 0, m02 = 0, m10 = 0, m11 = 1, m12 = 0, m20 = 0, m21 = 0, m22 = 1\<rparr>"
  by (simp add: rotation_matrix_def)

lemma isometry_apply_identity:
  "isometry_apply
     \<lparr>m00 = 1, m01 = 0, m02 = 0, m10 = 0, m11 = 1, m12 = 0, m20 = 0, m21 = 0, m22 = 1\<rparr>
     \<lparr>vx = 0, vy = 0, vz = 0\<rparr> p = p"
  by (simp add: isometry_apply_def mat_vec_def)

lemma mat_vec_identity:
  "mat_vec \<lparr>m00 = 1, m01 = 0, m02 = 0, m10 = 0, m11 = 1, m12 = 0, m20 = 0, m21 = 0, m22 = 1\<rparr> v
   = v"
  by (simp add: mat_vec_def)

lemma similarity_identity:
  "mat_mul
     (mat_mul \<lparr>m00 = 1, m01 = 0, m02 = 0, m10 = 0, m11 = 1, m12 = 0,
                m20 = 0, m21 = 0, m22 = 1\<rparr> c)
     (mat_transpose \<lparr>m00 = 1, m01 = 0, m02 = 0, m10 = 0, m11 = 1, m12 = 0,
                      m20 = 0, m21 = 0, m22 = 1\<rparr>) = c"
  by (simp add: mat_mul_def mat_transpose_def)

lemma transform_detection_identity:
  assumes "pose_position odom = \<lparr>vx = 0, vy = 0, vz = 0\<rparr>"
    and "pose_orientation odom = \<lparr>quat_x = 0, quat_y = 0, quat_z = 0, quat_w = 1\<rparr>"
    and "odom_twist_linear odom = \<lparr>vx = 0, vy = 0, vz = 0\<rparr>"
  shows "transform_detection odom detection = detection"
proof -
  have poly: "map (isometry_apply
     \<lparr>m00 = 1, m01 = 0, m02 = 0, m10 = 0, m11 = 1, m12 = 0, m20 = 0, m21 = 0, m22 = 1\<rparr>
     \<lparr>vx = 0, vy = 0, vz = 0\<rparr>) ps = ps" for ps
    by (induction ps) (simp_all add: isometry_apply_identity)
  show ?thesis
    by (simp add: transform_detection_def assms rotation_matrix_identity poly
        isometry_apply_identity mat_vec_identity similarity_identity Let_def)
qed

lemma map_transform_detection_identity:
  assumes "pose_position odom = \<lparr>vx = 0, vy = 0, vz = 0\<rparr>"
    and "pose_orientation odom = \<lparr>quat_x = 0, quat_y = 0, quat_z = 0, quat_w = 1\<rparr>"
    and "odom_twist_linear odom = \<lparr>vx = 0, vy = 0, vz = 0\<rparr>"
  shows "map (transform_detection odom) ds = ds"
  by (induction ds) (simp_all add: transform_detection_identity [OF assms])

text \<open>
  C5: with the identity odometry (zero translation, identity rotation, zero linear
  velocity) the transform changes nothing of a batch but the frame id of its header,
  which becomes the tracking frame: every detection, with its centroid, polygon,
  covariance and twist, is as before.
\<close>

theorem transform_identity_odometry:
  assumes "pose_position odom = zero_vec3"
    and "pose_orientation odom = identity_quaternion"
    and "odom_twist_linear odom = zero_vec3"
  shows "transform s detections odom =
           detections\<lparr>det_header := (det_header detections)\<lparr>frame_id := frame (m_options s)\<rparr>\<rparr>"
  using assms
  by (simp add: transform_def map_transform_detection_identity zero_vec3_def
      identity_quaternion_def)

theorem transform_identity_odometry_witness:
  "pose_position ((example_odometry identity_quaternion)
      \<lparr>pose_position := zero_vec3, odom_twist_linear := zero_vec3\<rparr>) = zero_vec3
   \<and> pose_orientation ((example_odometry identity_quaternion)
      \<lparr>pose_position := zero_vec3, odom_twist_linear := zero_vec3\<rparr>) = identity_quaternion
   \<and> odom_twist_linear ((example_odometry identity_quaternion)
      \<lparr>pose_position := zero_vec3, odom_twist_linear := zero_vec3\<rparr>) = zero_vec3
   \<and> objects (transform example_tracker (example_detections 12)
        ((example_odometry identity_quaternion)
           \<lparr>pose_position := zero_vec3, odom_twist_linear := zero_vec3\<rparr>)) = [example_detection]
   \<and> frame_id (det_header (transform example_tracker (example_detections 12)
        ((example_odometry identity_quaternion)
           \<lparr>pose_position := zero_vec3, odom_twist_linear := zero_vec3\<rparr>))) = ''map''"
proof -
  let ?odom = "(example_odometry identity_quaternion)
                 \<lparr>pose_position := zero_vec3, odom_twist_linear := zero_vec3\<rparr>"
  have p: "pose_position ?odom = zero_vec3" by simp
  have q: "pose_orientation ?odom = identity_quaternion" by (simp add: example_odometry_def)
  have v: "odom_twist_linear ?odom = zero_vec3" by simp
  from transform_identity_odometry [OF p q v, of example_tracker "example_detections 12"] p q v
  show ?thesis by (simp add: example_detections_def example_tracker_def)
qed

lemma transform_detection_covariance:
  "position_covariance (transform_detection odom detection) =
     (if has_position_covariance detection
      then mat_mul (mat_mul (rotation_matrix (pose_orientation odom))
                      (position_covariance detection))
             (mat_transpose (rotation_matrix (pose_orientation odom)))
      else position_covariance detection)"
  "has_position_covariance (transform_detection odom detection) = has_position_covariance detection"
  by (simp_all add: transform_detection_def Let_def)

text \<open>
  C8: the transform replaces the position covariance \<open>C\<close> of a detection that carries one by
  \<open>R C R\<^sup>T\<close>, where \<open>R\<close> is the rotation matrix of the orientation of the odometry pose. A
  detection that carries none keeps its covariance field, and the presence flag is kept.
  The position of the pose has no effect on the covariance.
\<close>

theorem transform_rotates_covariance:
  assumes "i < length (objects detections)"
  shows "position_covariance (objects (transform s detections odom) ! i) =
           (if has_position_covariance (objects detections ! i)
            then mat_mul (mat_mul (rotation_matrix (pose_orientation odom))
                            (position_covariance (objects detections ! i)))
                   (mat_transpose (rotation_matrix (pose_orientation odom)))
            else position_covariance (objects detections ! i))
         \<and> has_position_covariance (objects (transform s detections odom) ! i) =
             has_position_covariance (objects detections ! i)
         \<and> position_covariance (objects (transform s detections (odom\<lparr>pose_position := t\<rparr>)) ! i) =
             position_covariance (objects (transform s detections odom) ! i)"
  using assms by (simp add: transform_def transform_detection_covariance)

theorem transform_rotates_covariance_witness:
  "0 < length (objects (example_detections 12))
   \<and> has_position_covariance (objects (example_detections 12) ! 0)
   \<and> position_covariance
        (objects (transform example_tracker (example_detections 12)
           (example_odometry \<lparr>quat_x = 0, quat_y = 0, quat_z = 3 / 5, quat_w = 4 / 5\<rparr>)) ! 0) =
       \<lparr>m00 = 674 / 625, m01 = 168 / 625, m02 = 0,
        m10 = 168 / 625, m11 = 1201 / 625, m12 = 0,
        m20 = 0, m21 = 0, m22 = 1\<rparr>"
proof -
  have i: "0 < length (objects (example_detections 12))"
    by (simp add: example_detections_def)
  from transform_rotates_covariance [OF i, of example_tracker
      "example_odometry \<lparr>quat_x = 0, quat_y = 0, quat_z = 3 / 5, quat_w = 4 / 5\<rparr>"] i
  show ?thesis
    by (simp add: example_detections_def example_detection_def example_odometry_def
        rotation_matrix_def mat_mul_def mat_transpose_def Let_def)
qed

text \<open>
  The matrix of a unit quaternion is orthogonal, so for a unit orientation the new
  covariance \<open>R C R\<^sup>T\<close> is the covariance in the rotated coordinates.
\<close>

lemma rotation_matrix_orthogonal:
  assumes "quat_x q * quat_x q + quat_y q * quat_y q + quat_z q * quat_z q + quat_w q * quat_w q = 1"
  shows "mat_mul (rotation_matrix q) (mat_transpose (rotation_matrix q)) =
     \<lparr>m00 = 1, m01 = 0, m02 = 0, m10 = 0, m11 = 1, m12 = 0, m20 = 0, m21 = 0, m22 = 1\<rparr>"
proof -
  have w: "quat_w q * quat_w q = 1 - (quat_x q * quat_x q + quat_y q * quat_y q + quat_z q * quat_z q)"
    using assms by simp
  show ?thesis
    apply (simp add: rotation_matrix_def mat_mul_def mat_transpose_def Let_def)
    apply (intro conjI)
    using w
    apply algebra+
    done
qed

end
